theory Spec2Isabelle
  imports Complex_Main
begin

section \<open>Values shared by the components\<close>

text \<open>
  A finite JavaScript number is the rational it denotes, a year an integer. The costs
  are added as the platform adds doubles, each sum rounded to the nearest double
  (\<open>js_add\<close> below); the profit and the per-year figure are written with the exact
  difference and quotient. A JavaScript string is the list of its UTF-16 code units;
  every string of the sources that matters here has code units below 256, so a code
  unit is a \<^typ>\<open>char\<close>.
\<close>

type_synonym number = rat
type_synonym uuid = string
type_synonym timestamptz = nat

section \<open>Doubles\<close>

text \<open>
  The value of the double nearest to a rational, as IEEE 754 binary64 rounds it (to
  nearest, ties to the even significand). The magnitude is scaled by powers of two
  until it lies in \<open>[2^52, 2^53)\<close>, or until the exponent reaches -1074 where the
  subnormal numbers live, then rounded to an integer and scaled back. The model has no
  infinity: a magnitude of \<open>2^1024\<close> or more, where the platform gives \<open>Infinity\<close>, is
  outside it.
\<close>

definition pow2 :: "int \<Rightarrow> rat" where
  "pow2 e = (if 0 \<le> e then 2 ^ nat e else 1 / 2 ^ nat (- e))"

function scale_down :: "rat \<Rightarrow> int \<Rightarrow> rat \<times> int" where
  "scale_down m e = (if 2 ^ 53 \<le> m then scale_down (m / 2) (e + 1) else (m, e))"
  by pat_completeness auto
termination
proof (relation "measure (\<lambda>(m, e). nat \<lceil>m\<rceil>)")
  show "wf (measure (\<lambda>(m, e). nat \<lceil>m\<rceil>))" by simp
next
  fix m :: rat and e :: int
  assume big: "2 ^ 53 \<le> m"
  then have "2 \<le> m" by simp
  then have "m / 2 + 1 \<le> m" by simp
  moreover have "of_int \<lceil>m / 2\<rceil> < m / 2 + 1" by linarith
  ultimately have "of_int \<lceil>m / 2\<rceil> < m" by simp
  then have "\<lceil>m / 2\<rceil> < \<lceil>m\<rceil>" by linarith
  moreover have "0 < \<lceil>m\<rceil>" using big by (simp add: ceiling_less_iff less_ceiling_iff)
  ultimately show "((m / 2, e + 1), (m, e)) \<in> measure (\<lambda>(m, e). nat \<lceil>m\<rceil>)"
    by simp
qed

function scale_up :: "rat \<Rightarrow> int \<Rightarrow> rat \<times> int" where
  "scale_up m e = (if m < 2 ^ 52 \<and> - 1074 < e then scale_up (2 * m) (e - 1) else (m, e))"
  by pat_completeness auto
termination
  by (relation "measure (\<lambda>(m, e). nat (e + 1074))") auto

declare scale_down.simps [simp del] scale_up.simps [simp del]

definition round_half_even :: "rat \<Rightarrow> int" where
  "round_half_even q =
     (let f = \<lfloor>q\<rfloor>; r = q - of_int f
      in if r < 1 / 2 then f else if 1 / 2 < r then f + 1 else if even f then f else f + 1)"

definition binary64 :: "rat \<Rightarrow> rat" where
  "binary64 x =
     (if x = 0 then 0
      else let (m1, e1) = scale_down \<bar>x\<bar> 0;
               (m2, e2) = scale_up m1 e1
           in sgn x * of_int (round_half_even m2) * pow2 e2)"

text \<open>\<open>a + b\<close> on two numbers: the exact sum, rounded.\<close>

definition js_add :: "number \<Rightarrow> number \<Rightarrow> number" where
  "js_add a b = binary64 (a + b)"

section \<open>Currency formatter (src/lib/currency.ts)\<close>

datatype Country = United_States | Canada | Mexico | United_Kingdom | Other

record CurrencyInfo =
  code :: string
  symbol :: string
  locale' :: string

text \<open>
  The symbol of the United Kingdom entry is written in the source file as the bytes
  C3 82 C2 A3, which a UTF-8 reader decodes to the two code units U+00C2 U+00A3.
\<close>

fun currencyMap :: "Country \<Rightarrow> CurrencyInfo" where
  "currencyMap United_States = \<lparr>code = ''USD'', symbol = ''$'', locale' = ''en-US''\<rparr>"
| "currencyMap Canada = \<lparr>code = ''CAD'', symbol = ''C$'', locale' = ''en-CA''\<rparr>"
| "currencyMap Mexico = \<lparr>code = ''MXN'', symbol = ''MX$'', locale' = ''es-MX''\<rparr>"
| "currencyMap United_Kingdom =
     \<lparr>code = ''GBP'', symbol = [CHR 0xC2, CHR 0xA3], locale' = ''en-GB''\<rparr>"
| "currencyMap Other = \<lparr>code = ''USD'', symbol = ''$'', locale' = ''en-US''\<rparr>"

text \<open>\<open>country || 'United States'\<close>: \<open>null\<close> and \<open>undefined\<close> are \<open>None\<close>.\<close>

definition country_or_default :: "Country option \<Rightarrow> Country" where
  "country_or_default country = (case country of None \<Rightarrow> United_States | Some c \<Rightarrow> c)"

record options =
  minimumFractionDigits :: "nat option"
  maximumFractionDigits :: "nat option"

record NumberFormatOptions =
  style :: string
  currency :: string
  nf_minimumFractionDigits :: nat
  nf_maximumFractionDigits :: nat

text \<open>
  \<open>Intl.NumberFormat\<close> belongs to the platform, so \<open>formatCurrency\<close> takes it as the
  parameter \<open>NumberFormat\<close>: locale, options and amount to whatever the platform renders
  (or throws).
\<close>

definition formatCurrency ::
  "(string \<Rightarrow> NumberFormatOptions \<Rightarrow> number \<Rightarrow> 'r) \<Rightarrow> number \<Rightarrow> Country option \<Rightarrow> options \<Rightarrow> 'r" where
  "formatCurrency NumberFormat amount country opts =
     (let currencyInfo = currencyMap (country_or_default country);
          maxFractionDigits = (case maximumFractionDigits opts of None \<Rightarrow> 2 | Some m \<Rightarrow> m);
          minFractionDigits = (case minimumFractionDigits opts of
                                 None \<Rightarrow> min 2 maxFractionDigits | Some m \<Rightarrow> m);
          formatOptions = \<lparr>style = ''currency'', currency = code currencyInfo,
                           nf_minimumFractionDigits = minFractionDigits,
                           nf_maximumFractionDigits = maxFractionDigits\<rparr>
      in NumberFormat (locale' currencyInfo) formatOptions amount)"

definition getCurrencySymbol :: "Country option \<Rightarrow> string" where
  "getCurrencySymbol country = symbol (currencyMap (country_or_default country))"

definition no_options :: options where
  "no_options = \<lparr>minimumFractionDigits = None, maximumFractionDigits = None\<rparr>"

section \<open>Room label pluralizer (HouseDetails component)\<close>

text \<open>
  \<open>toLowerCase\<close> on code units below 256: the ASCII capitals and the Latin-1 capitals
  U+00C0 to U+00DE (without the multiplication sign U+00D7) move up by 32, every other
  unit stays.
\<close>

definition upper_case_units :: string where
  "upper_case_units = ''ABCDEFGHIJKLMNOPQRSTUVWXYZ'' @
     [CHR 0xC0, CHR 0xC1, CHR 0xC2, CHR 0xC3, CHR 0xC4, CHR 0xC5, CHR 0xC6, CHR 0xC7, CHR 0xC8,
      CHR 0xC9, CHR 0xCA, CHR 0xCB, CHR 0xCC, CHR 0xCD, CHR 0xCE, CHR 0xCF, CHR 0xD0, CHR 0xD1,
      CHR 0xD2, CHR 0xD3, CHR 0xD4, CHR 0xD5, CHR 0xD6, CHR 0xD8, CHR 0xD9, CHR 0xDA, CHR 0xDB,
      CHR 0xDC, CHR 0xDD, CHR 0xDE]"

definition lower_case_units :: string where
  "lower_case_units = ''abcdefghijklmnopqrstuvwxyz'' @
     [CHR 0xE0, CHR 0xE1, CHR 0xE2, CHR 0xE3, CHR 0xE4, CHR 0xE5, CHR 0xE6, CHR 0xE7, CHR 0xE8,
      CHR 0xE9, CHR 0xEA, CHR 0xEB, CHR 0xEC, CHR 0xED, CHR 0xEE, CHR 0xEF, CHR 0xF0, CHR 0xF1,
      CHR 0xF2, CHR 0xF3, CHR 0xF4, CHR 0xF5, CHR 0xF6, CHR 0xF8, CHR 0xF9, CHR 0xFA, CHR 0xFB,
      CHR 0xFC, CHR 0xFD, CHR 0xFE]"

definition toLowerCase_unit :: "char \<Rightarrow> char" where
  "toLowerCase_unit c =
     (case map_of (zip upper_case_units lower_case_units) c of None \<Rightarrow> c | Some l \<Rightarrow> l)"

definition toLowerCase :: "string \<Rightarrow> string" where
  "toLowerCase s = map toLowerCase_unit s"

text \<open>\<open>String.prototype.endsWith\<close> and \<open>slice(0, -1)\<close>.\<close>

definition endsWith :: "string \<Rightarrow> string \<Rightarrow> bool" where
  "endsWith s searchString =
     (length searchString \<le> length s \<and> drop (length s - length searchString) s = searchString)"

definition slice_0_minus1 :: "string \<Rightarrow> string" where
  "slice_0_minus1 s = take (length s - 1) s"

definition pluralizeWord :: "string \<Rightarrow> string" where
  "pluralizeWord word =
     (if endsWith (toLowerCase word) ''y'' then slice_0_minus1 word @ ''ies''
      else if endsWith (toLowerCase word) ''ch'' \<or> endsWith (toLowerCase word) ''sh'' \<or>
              endsWith (toLowerCase word) ''s'' \<or> endsWith (toLowerCase word) ''x'' \<or>
              endsWith (toLowerCase word) ''z''
      then word @ ''es''
      else word @ ''s'')"

text \<open>
  \<open>split(' ')\<close> and \<open>join(' ')\<close>: splitting never returns the empty array, and two
  separators in a row give an empty word between them.
\<close>

fun split :: "char \<Rightarrow> string \<Rightarrow> string list" where
  "split sep [] = [[]]"
| "split sep (c # cs) =
     (if c = sep then [] # split sep cs
      else (c # hd (split sep cs)) # tl (split sep cs))"

fun join :: "string \<Rightarrow> string list \<Rightarrow> string" where
  "join sep [] = []"
| "join sep [w] = w"
| "join sep (w # v # ws) = w @ sep @ join sep (v # ws)"

definition pluralizeRoomType :: "string \<Rightarrow> number \<Rightarrow> string" where
  "pluralizeRoomType roomType count =
     (if count \<le> 1 then roomType
      else if CHR '' '' \<in> set roomType then
        (let words = split (CHR '' '') roomType;
             lastWord = words ! (length words - 1);
             words' = words[length words - 1 := pluralizeWord lastWord]
         in join '' '' words')
      else pluralizeWord roomType)"

subsection \<open>The labelling rules as the specification words them\<close>

text \<open>
  The final word of a name is what follows its last space (the whole name when it has
  no space); only that word is replaced. A word ends in a suffix when its last code
  units, lower-cased, are the suffix.
\<close>

definition final_word :: "string \<Rightarrow> string" where
  "final_word name = rev (takeWhile (\<lambda>c. c \<noteq> CHR '' '') (rev name))"

definition before_final_word :: "string \<Rightarrow> string" where
  "before_final_word name = rev (dropWhile (\<lambda>c. c \<noteq> CHR '' '') (rev name))"

definition ends_in :: "string \<Rightarrow> string \<Rightarrow> bool" where
  "ends_in w sfx =
     (length sfx \<le> length w \<and> toLowerCase (drop (length w - length sfx) w) = sfx)"

definition plural_by_rules :: "string \<Rightarrow> string" where
  "plural_by_rules w =
     (if ends_in w ''y'' then butlast w @ ''ies''
      else if list_ex (ends_in w) [''ch'', ''sh'', ''s'', ''x'', ''z''] then w @ ''es''
      else w @ ''s'')"

definition room_label :: "string \<Rightarrow> number \<Rightarrow> string" where
  "room_label name count =
     (if count \<le> 1 then name else before_final_word name @ plural_by_rules (final_word name))"

section \<open>Backing store rows and the query client\<close>

text \<open>
  A cost column as the query client delivers it, classed by what \<open>Number(x)\<close> makes of
  it: \<open>undefined\<close> (the key is missing), \<open>null\<close>, a number or a numeric string (with
  the rational its digits denote), or a value that converts to \<open>NaN\<close>. A value that
  converts to an infinity is outside the model.
\<close>

datatype cell = Undefined | Null | Numeric number | NonNumeric

record HouseInfo =
  year_bought :: "int option"
  year_sold :: "int option"
  price_paid :: "number option"
  price_sold :: "number option"
  square_footage :: "int option"
  country :: "Country option"

record houses_row =
  house_id :: uuid
  user_id :: uuid
  house_deleted_at :: "timestamptz option"
  house_info :: HouseInfo

record interior_appliances_row =
  appliance_id :: uuid
  appliance_house_id :: uuid
  purchase_cost :: cell
  installation_cost :: cell
  appliance_deleted_at :: "timestamptz option"

record appliance_repairs_row =
  repair_appliance_id :: uuid
  repair_cost :: cell
  repair_deleted_at :: "timestamptz option"

record appliance_attachments_row =
  attachment_appliance_id :: uuid
  attachment_file_name :: string
  attachment_deleted_at :: "timestamptz option"

record exterior_features_row =
  feature_house_id :: uuid
  build_cost :: cell
  feature_deleted_at :: "timestamptz option"

record exterior_maintenance_row =
  maintenance_house_id :: uuid
  cost :: cell
  maintenance_deleted_at :: "timestamptz option"

record database =
  houses :: "houses_row list"
  interior_appliances :: "interior_appliances_row list"
  appliance_repairs :: "appliance_repairs_row list"
  appliance_attachments :: "appliance_attachments_row list"
  exterior_features :: "exterior_features_row list"
  exterior_maintenance :: "exterior_maintenance_row list"

text \<open>
  What an awaited query gives: the promise rejects, or it resolves to a response whose
  \<open>data\<close> is \<open>null\<close> when the read failed (then \<open>error\<close> is set) and, for
  \<open>maybeSingle\<close>, also when no row matched.
\<close>

record 'a response =
  data :: "'a option"
  error :: "string option"

datatype 'r settled = Rejected | Fulfilled 'r

text \<open>
  The five reads of \<open>loadCosts\<close>, as the client answers them. The client
  (\<open>lib/supabase\<close> and the library behind it) is not among the sources, so
  \<open>loadCosts\<close> takes it as a parameter.
\<close>

record supabase =
  from_houses :: "uuid \<Rightarrow> HouseInfo response settled"
  from_interior_appliances :: "uuid \<Rightarrow> interior_appliances_row list response settled"
  from_exterior_features :: "uuid \<Rightarrow> exterior_features_row list response settled"
  from_exterior_maintenance :: "uuid \<Rightarrow> exterior_maintenance_row list response settled"
  from_appliance_repairs :: "uuid list \<Rightarrow> appliance_repairs_row list response settled"

text \<open>
  Modelled from the spec: the query client, absent from the sources. A select returns
  the rows that pass its filter, and every read filters out soft-deleted rows (section
  6); the filters are the ones \<open>loadCosts\<close> writes (\<open>.eq('house_id', houseId)\<close>,
  \<open>.in('appliance_id', applianceIds)\<close>, \<open>.is('deleted_at', null)\<close>). A read that fails
  resolves to \<open>{data: null, error}\<close>, which is what the loaders of the other components
  test with \<open>if (error) throw error\<close>. \<open>supabase_on\<close> is the client whose every read
  succeeds on a given database.
\<close>

definition rows :: "'a list \<Rightarrow> 'a list response settled" where
  "rows xs = Fulfilled \<lparr>data = Some xs, error = None\<rparr>"

definition failed :: "string \<Rightarrow> 'a response settled" where
  "failed message = Fulfilled \<lparr>data = None, error = Some message\<rparr>"

definition maybeSingle :: "'a list \<Rightarrow> 'a response settled" where
  "maybeSingle xs =
     (case xs of
        [] \<Rightarrow> Fulfilled \<lparr>data = None, error = None\<rparr>
      | [x] \<Rightarrow> Fulfilled \<lparr>data = Some x, error = None\<rparr>
      | _ \<Rightarrow> failed ''PGRST116'')"

definition active_house :: "database \<Rightarrow> uuid \<Rightarrow> HouseInfo list" where
  "active_house db houseId =
     map house_info (filter (\<lambda>h. house_id h = houseId \<and> house_deleted_at h = None) (houses db))"

definition active_appliances :: "database \<Rightarrow> uuid \<Rightarrow> interior_appliances_row list" where
  "active_appliances db houseId =
     filter (\<lambda>a. appliance_house_id a = houseId \<and> appliance_deleted_at a = None)
       (interior_appliances db)"

definition active_features :: "database \<Rightarrow> uuid \<Rightarrow> exterior_features_row list" where
  "active_features db houseId =
     filter (\<lambda>f. feature_house_id f = houseId \<and> feature_deleted_at f = None)
       (exterior_features db)"

definition active_maintenance :: "database \<Rightarrow> uuid \<Rightarrow> exterior_maintenance_row list" where
  "active_maintenance db houseId =
     filter (\<lambda>m. maintenance_house_id m = houseId \<and> maintenance_deleted_at m = None)
       (exterior_maintenance db)"

definition active_repairs :: "database \<Rightarrow> uuid list \<Rightarrow> appliance_repairs_row list" where
  "active_repairs db applianceIds =
     filter (\<lambda>r. repair_appliance_id r \<in> set applianceIds \<and> repair_deleted_at r = None)
       (appliance_repairs db)"

definition supabase_on :: "database \<Rightarrow> supabase" where
  "supabase_on db =
     \<lparr>from_houses = (\<lambda>houseId. maybeSingle (active_house db houseId)),
      from_interior_appliances = (\<lambda>houseId. rows (active_appliances db houseId)),
      from_exterior_features = (\<lambda>houseId. rows (active_features db houseId)),
      from_exterior_maintenance = (\<lambda>houseId. rows (active_maintenance db houseId)),
      from_appliance_repairs = (\<lambda>applianceIds. rows (active_repairs db applianceIds))\<rparr>"

section \<open>Cost dashboard (CostDashboard component)\<close>

record CostBreakdown =
  housePurchase :: number
  appliances :: number
  applianceInstallation :: number
  applianceRepairs :: number
  exteriorFeatures :: number
  exteriorMaintenance :: number
  totalCost :: number

text \<open>
  The component's three state variables, with the two effects a claim can observe: the
  tables read, in the order the reads are issued, and the lines written by
  \<open>console.error\<close>.
\<close>

record dashboard =
  costs :: CostBreakdown
  houseInfo :: "HouseInfo option"
  loading :: bool
  requests :: "string list"
  console :: "string list"

definition initial :: dashboard where
  "initial =
     \<lparr>costs = \<lparr>housePurchase = 0, appliances = 0, applianceInstallation = 0,
               applianceRepairs = 0, exteriorFeatures = 0, exteriorMaintenance = 0,
               totalCost = 0\<rparr>,
      houseInfo = None, loading = True, requests = [], console = []\<rparr>"

text \<open>
  \<open>Number(x)\<close>, with \<open>None\<close> for \<open>NaN\<close>: digits become the nearest double. Then
  \<open>x || 0\<close> on a number.
\<close>

fun Number :: "cell \<Rightarrow> number option" where
  "Number Undefined = None"
| "Number Null = Some 0"
| "Number (Numeric n) = Some (binary64 n)"
| "Number NonNumeric = None"

definition or_zero :: "number option \<Rightarrow> number" where
  "or_zero x = (case x of None \<Rightarrow> 0 | Some n \<Rightarrow> if n = 0 then 0 else n)"

text \<open>\<open>res.data?.reduce((sum, a) => sum + (Number(a.field) || 0), 0) || 0\<close>.\<close>

definition reduce_cost :: "('a \<Rightarrow> cell) \<Rightarrow> 'a list option \<Rightarrow> number" where
  "reduce_cost field d =
     (case d of
        None \<Rightarrow> 0
      | Some xs \<Rightarrow> or_zero (Some (foldl (\<lambda>sum a. js_add sum (or_zero (Number (field a)))) 0 xs)))"

text \<open>The \<open>catch\<close> block followed by the \<open>finally\<close> block.\<close>

definition catch_finally :: "dashboard \<Rightarrow> dashboard" where
  "catch_finally w = w\<lparr>console := console w @ [''Error loading costs:''], loading := False\<rparr>"

text \<open>\<open>Promise.all\<close> of the four first reads: \<open>None\<close> when one of them rejects.\<close>

definition Promise_all ::
  "'a settled \<Rightarrow> 'b settled \<Rightarrow> 'c settled \<Rightarrow> 'd settled \<Rightarrow> ('a \<times> 'b \<times> 'c \<times> 'd) option" where
  "Promise_all a b c d =
     (case a of Rejected \<Rightarrow> None | Fulfilled ra \<Rightarrow>
      (case b of Rejected \<Rightarrow> None | Fulfilled rb \<Rightarrow>
       (case c of Rejected \<Rightarrow> None | Fulfilled rc \<Rightarrow>
        (case d of Rejected \<Rightarrow> None | Fulfilled rd \<Rightarrow> Some (ra, rb, rc, rd)))))"

text \<open>
  In \<open>loadCosts\<close> a primed name is the local constant of that name in the source (the
  unprimed names are the fields of the cost breakdown).
\<close>

definition loadCosts :: "supabase \<Rightarrow> uuid option \<Rightarrow> dashboard \<Rightarrow> dashboard" where
  "loadCosts sb houseId w =
     (case houseId of
        None \<Rightarrow> w
      | Some hid \<Rightarrow>
          if hid = [] then w
          else
            let w1 = w\<lparr>requests := requests w @ [''houses'', ''interior_appliances'',
                                                  ''exterior_features'', ''exterior_maintenance'']\<rparr>
            in
            (case Promise_all (from_houses sb hid) (from_interior_appliances sb hid)
                    (from_exterior_features sb hid) (from_exterior_maintenance sb hid) of
               None \<Rightarrow> catch_finally w1
             | Some (houseRes, appliancesRes, featuresRes, maintenanceRes) \<Rightarrow>
                 let housePurchase' =
                       (case data houseRes of None \<Rightarrow> 0 | Some h \<Rightarrow> or_zero (price_paid h));
                     appliances' = reduce_cost purchase_cost (data appliancesRes);
                     applianceInstallation' = reduce_cost installation_cost (data appliancesRes);
                     (w2, repairs) =
                       (case data appliancesRes of
                          None \<Rightarrow> (w1, Some 0)
                        | Some as \<Rightarrow>
                            if length as > 0 then
                              let applianceIds = map appliance_id as in
                              (w1\<lparr>requests := requests w1 @ [''appliance_repairs'']\<rparr>,
                               case from_appliance_repairs sb applianceIds of
                                 Rejected \<Rightarrow> None
                               | Fulfilled repairsRes \<Rightarrow>
                                   Some (reduce_cost repair_cost (data repairsRes)))
                            else (w1, Some 0))
                 in
                 (case repairs of
                    None \<Rightarrow> catch_finally w2
                  | Some applianceRepairs' \<Rightarrow>
                      let exteriorFeatures' = reduce_cost build_cost (data featuresRes);
                          exteriorMaintenance' = reduce_cost cost (data maintenanceRes);
                          totalCost' =
                            js_add (js_add (js_add (js_add (js_add housePurchase' appliances')
                                                       applianceInstallation')
                                               applianceRepairs')
                                       exteriorFeatures')
                              exteriorMaintenance'
                      in w2\<lparr>costs := \<lparr>housePurchase = housePurchase', appliances = appliances',
                                       applianceInstallation = applianceInstallation',
                                       applianceRepairs = applianceRepairs',
                                       exteriorFeatures = exteriorFeatures',
                                       exteriorMaintenance = exteriorMaintenance',
                                       totalCost = totalCost'\<rparr>,
                            houseInfo := (case data houseRes of
                                            None \<Rightarrow> houseInfo w2 | Some h \<Rightarrow> Some h),
                            loading := False\<rparr>)))"

text \<open>
  A nullable number used as a condition: \<open>null\<close>, \<open>undefined\<close> and 0 are falsy. The
  result is the number when it is truthy.
\<close>

definition truthy :: "'a::zero option \<Rightarrow> 'a option" where
  "truthy x = (case x of None \<Rightarrow> None | Some v \<Rightarrow> if v = 0 then None else Some v)"

definition profit :: "HouseInfo option \<Rightarrow> CostBreakdown \<Rightarrow> number option" where
  "profit hi cs =
     (case hi of
        None \<Rightarrow> None
      | Some h \<Rightarrow>
          (case truthy (price_sold h) of
             Some sold \<Rightarrow> Some (sold - totalCost cs)
           | None \<Rightarrow> None))"

text \<open>\<open>currentYear\<close> is \<open>new Date().getFullYear()\<close> at the time of rendering.\<close>

definition yearsOwned :: "int \<Rightarrow> HouseInfo option \<Rightarrow> int option" where
  "yearsOwned currentYear hi =
     (case hi of
        None \<Rightarrow> None
      | Some h \<Rightarrow>
          (case truthy (year_bought h) of
             None \<Rightarrow> None
           | Some bought \<Rightarrow>
               (case truthy (year_sold h) of
                  Some sold \<Rightarrow> Some (sold - bought)
                | None \<Rightarrow> Some (currentYear - bought))))"

text \<open>
  The amount under the Years Owned card: the block is rendered when \<open>yearsOwned\<close> is
  truthy, the per-year line inside it when \<open>yearsOwned > 0\<close>.
\<close>

definition costPerYear :: "int \<Rightarrow> HouseInfo option \<Rightarrow> CostBreakdown \<Rightarrow> number option" where
  "costPerYear currentYear hi cs =
     (case truthy (yearsOwned currentYear hi) of
        None \<Rightarrow> None
      | Some y \<Rightarrow> if y > 0 then Some (totalCost cs / of_int y) else None)"

text \<open>What the component returns: the loading line, the welcome panel or the cards.\<close>

datatype view =
  Loading_view
| Welcome_view
| Dashboard_view (shown_costs: CostBreakdown) (shown_profit: "number option")
    (shown_years: "int option") (shown_per_year: "number option")

definition CostDashboard :: "int \<Rightarrow> uuid option \<Rightarrow> dashboard \<Rightarrow> view" where
  "CostDashboard currentYear houseId w =
     (if loading w then Loading_view
      else if houseId = None \<or> houseId = Some [] then Welcome_view
      else Dashboard_view (costs w)
             (case houseInfo w of
                None \<Rightarrow> None
              | Some h \<Rightarrow> (case truthy (price_sold h) of
                             None \<Rightarrow> None | Some _ \<Rightarrow> profit (houseInfo w) (costs w)))
             (truthy (yearsOwned currentYear (houseInfo w)))
             (costPerYear currentYear (houseInfo w) (costs w)))"

subsection \<open>The cost breakdown as the specification words it\<close>

text \<open>A missing, null or non-numeric cost counts as 0.\<close>

fun coalesce :: "cell \<Rightarrow> number" where
  "coalesce (Numeric n) = n"
| "coalesce _ = 0"

text \<open>The sum of a cost column over some rows, as a sum of the recorded amounts.\<close>

definition total_of :: "('a \<Rightarrow> cell) \<Rightarrow> 'a list \<Rightarrow> number" where
  "total_of field xs = sum_list (map (\<lambda>x. coalesce (field x)) xs)"

text \<open>
  The same column summed in doubles: every amount becomes the nearest double, and the
  doubles are added from 0, left to right, in the order of the rows.
\<close>

definition double_total :: "('a \<Rightarrow> cell) \<Rightarrow> 'a list \<Rightarrow> number" where
  "double_total field xs = foldl js_add 0 (map (\<lambda>x. binary64 (coalesce (field x))) xs)"

text \<open>A whole amount: an integer that is not negative.\<close>

definition whole :: "number \<Rightarrow> bool" where
  "whole v = (0 \<le> v \<and> of_int \<lfloor>v\<rfloor> = v)"

definition whole_column :: "('a \<Rightarrow> cell) \<Rightarrow> 'a list \<Rightarrow> bool" where
  "whole_column field xs = list_all (\<lambda>x. whole (coalesce (field x))) xs"

definition purchase_price :: "database \<Rightarrow> uuid \<Rightarrow> number" where
  "purchase_price db houseId =
     (case active_house db houseId of
        [h] \<Rightarrow> (case price_paid h of None \<Rightarrow> 0 | Some p \<Rightarrow> p)
      | _ \<Rightarrow> 0)"

text \<open>
  The breakdown of a house as sums of the recorded amounts, the total being the sum of
  the six components.
\<close>

definition exact_breakdown :: "database \<Rightarrow> uuid \<Rightarrow> CostBreakdown" where
  "exact_breakdown db houseId =
     \<lparr>housePurchase = purchase_price db houseId,
      appliances = total_of purchase_cost (active_appliances db houseId),
      applianceInstallation = total_of installation_cost (active_appliances db houseId),
      applianceRepairs =
        total_of repair_cost
          (active_repairs db (map appliance_id (active_appliances db houseId))),
      exteriorFeatures = total_of build_cost (active_features db houseId),
      exteriorMaintenance = total_of cost (active_maintenance db houseId),
      totalCost =
        purchase_price db houseId
        + total_of purchase_cost (active_appliances db houseId)
        + total_of installation_cost (active_appliances db houseId)
        + total_of repair_cost
            (active_repairs db (map appliance_id (active_appliances db houseId)))
        + total_of build_cost (active_features db houseId)
        + total_of cost (active_maintenance db houseId)\<rparr>"

text \<open>
  The breakdown in doubles: each component summed left to right over its rows, and the
  total the six components added left to right, every addition rounded.
\<close>

definition double_breakdown :: "database \<Rightarrow> uuid \<Rightarrow> CostBreakdown" where
  "double_breakdown db houseId =
     \<lparr>housePurchase = purchase_price db houseId,
      appliances = double_total purchase_cost (active_appliances db houseId),
      applianceInstallation = double_total installation_cost (active_appliances db houseId),
      applianceRepairs =
        double_total repair_cost
          (active_repairs db (map appliance_id (active_appliances db houseId))),
      exteriorFeatures = double_total build_cost (active_features db houseId),
      exteriorMaintenance = double_total cost (active_maintenance db houseId),
      totalCost =
        js_add (js_add (js_add (js_add (js_add
          (purchase_price db houseId)
          (double_total purchase_cost (active_appliances db houseId)))
          (double_total installation_cost (active_appliances db houseId)))
          (double_total repair_cost
             (active_repairs db (map appliance_id (active_appliances db houseId)))))
          (double_total build_cost (active_features db houseId)))
          (double_total cost (active_maintenance db houseId))\<rparr>"

text \<open>Every amount recorded for the house is whole.\<close>

definition whole_amounts :: "database \<Rightarrow> uuid \<Rightarrow> bool" where
  "whole_amounts db houseId =
     (whole (purchase_price db houseId)
      \<and> whole_column purchase_cost (active_appliances db houseId)
      \<and> whole_column installation_cost (active_appliances db houseId)
      \<and> whole_column repair_cost
            (active_repairs db (map appliance_id (active_appliances db houseId)))
      \<and> whole_column build_cost (active_features db houseId)
      \<and> whole_column cost (active_maintenance db houseId))"

text \<open>
  The scenario of the specification's section 8: a house bought for 300000, one
  appliance (1200 to buy, 300 to install) with one repair of 150, one exterior feature
  of 5000 and one maintenance record of 800.
\<close>

definition scenario :: database where
  "scenario =
     \<lparr>houses = [\<lparr>house_id = ''h1'', user_id = ''u1'', house_deleted_at = None,
                 house_info = \<lparr>year_bought = Some 2020, year_sold = None,
                               price_paid = Some 300000, price_sold = None,
                               square_footage = None, country = None\<rparr>\<rparr>],
      interior_appliances =
        [\<lparr>appliance_id = ''a1'', appliance_house_id = ''h1'', purchase_cost = Numeric 1200,
          installation_cost = Numeric 300, appliance_deleted_at = None\<rparr>],
      appliance_repairs =
        [\<lparr>repair_appliance_id = ''a1'', repair_cost = Numeric 150, repair_deleted_at = None\<rparr>],
      appliance_attachments = [],
      exterior_features =
        [\<lparr>feature_house_id = ''h1'', build_cost = Numeric 5000, feature_deleted_at = None\<rparr>],
      exterior_maintenance =
        [\<lparr>maintenance_house_id = ''h1'', cost = Numeric 800, maintenance_deleted_at = None\<rparr>]\<rparr>"

text \<open>
  A house with three appliances bought for 0.10, 0.20 and 0.30, and the same house with
  the rows in the opposite order.
\<close>

definition small_change :: database where
  "small_change =
     \<lparr>houses = [\<lparr>house_id = ''h1'', user_id = ''u1'', house_deleted_at = None,
                 house_info = \<lparr>year_bought = None, year_sold = None,
                               price_paid = None, price_sold = None,
                               square_footage = None, country = None\<rparr>\<rparr>],
      interior_appliances =
        [\<lparr>appliance_id = ''a1'', appliance_house_id = ''h1'',
          purchase_cost = Numeric (1 / 10), installation_cost = Null,
          appliance_deleted_at = None\<rparr>,
         \<lparr>appliance_id = ''a2'', appliance_house_id = ''h1'',
          purchase_cost = Numeric (2 / 10), installation_cost = Null,
          appliance_deleted_at = None\<rparr>,
         \<lparr>appliance_id = ''a3'', appliance_house_id = ''h1'',
          purchase_cost = Numeric (3 / 10), installation_cost = Null,
          appliance_deleted_at = None\<rparr>],
      appliance_repairs = [],
      appliance_attachments = [],
      exterior_features = [],
      exterior_maintenance = []\<rparr>"

definition small_change_reversed :: database where
  "small_change_reversed =
     small_change\<lparr>interior_appliances := rev (interior_appliances small_change)\<rparr>"

text \<open>
  Two clients whose reads fail the way the client library reports a failure, by
  resolving to \<open>{data: null, error}\<close>: \<open>outage\<close> fails the appliance read only, on the
  database of the scenario; \<open>offline\<close> fails every read.
\<close>

definition outage :: supabase where
  "outage = (supabase_on scenario)
     \<lparr>from_interior_appliances := (\<lambda>houseId. failed ''TypeError: Failed to fetch'')\<rparr>"

definition offline :: supabase where
  "offline =
     \<lparr>from_houses = (\<lambda>houseId. failed ''TypeError: Failed to fetch''),
      from_interior_appliances = (\<lambda>houseId. failed ''TypeError: Failed to fetch''),
      from_exterior_features = (\<lambda>houseId. failed ''TypeError: Failed to fetch''),
      from_exterior_maintenance = (\<lambda>houseId. failed ''TypeError: Failed to fetch''),
      from_appliance_repairs = (\<lambda>applianceIds. failed ''TypeError: Failed to fetch'')\<rparr>"

text \<open>Three houses for the examples: sold at a loss, given away for nothing, and one
  whose sale year was entered as 0.\<close>

definition sold_house :: HouseInfo where
  "sold_house = \<lparr>year_bought = Some 2020, year_sold = Some 2025, price_paid = Some 300000,
                  price_sold = Some 300000, square_footage = None, country = Some Canada\<rparr>"

definition given_away :: HouseInfo where
  "given_away = \<lparr>year_bought = Some 2020, year_sold = Some 2025, price_paid = Some 300000,
                  price_sold = Some 0, square_footage = None, country = None\<rparr>"

definition year_zero :: HouseInfo where
  "year_zero = \<lparr>year_bought = Some 2000, year_sold = Some 0, price_paid = Some 300000,
                 price_sold = None, square_footage = None, country = None\<rparr>"

definition scenario_costs :: CostBreakdown where
  "scenario_costs =
     \<lparr>housePurchase = 300000, appliances = 1200, applianceInstallation = 300,
      applianceRepairs = 150, exteriorFeatures = 5000, exteriorMaintenance = 800,
      totalCost = 307450\<rparr>"

section \<open>Soft delete of an appliance (migration 20260109160803)\<close>

text \<open>
  \<open>soft_delete_appliance(appliance_id uuid)\<close> runs as its definer, so row-level security
  filters none of its three updates. \<open>auth_uid\<close> is \<open>auth.uid()\<close>, \<open>NULL\<close> without a
  session; a comparison with \<open>NULL\<close> is not true. \<open>now\<close> is \<open>now()\<close>, the same in
  the three statements of one call. The primed \<open>appliance_id'\<close> is the function's
  parameter.
\<close>

definition soft_delete_appliance ::
  "uuid option \<Rightarrow> timestamptz \<Rightarrow> uuid \<Rightarrow> database \<Rightarrow> database" where
  "soft_delete_appliance auth_uid now appliance_id' db =
     (let db1 = db\<lparr>interior_appliances :=
                  map (\<lambda>a. if appliance_id a = appliance_id'
                               \<and> appliance_deleted_at a = None
                               \<and> list_ex (\<lambda>h. house_id h = appliance_house_id a
                                                \<and> Some (user_id h) = auth_uid) (houses db)
                            then a\<lparr>appliance_deleted_at := Some now\<rparr> else a)
                    (interior_appliances db)\<rparr>;
          db2 = db1\<lparr>appliance_repairs :=
                  map (\<lambda>r. if repair_appliance_id r = appliance_id'
                               \<and> repair_deleted_at r = None
                            then r\<lparr>repair_deleted_at := Some now\<rparr> else r)
                    (appliance_repairs db1)\<rparr>;
          db3 = db2\<lparr>appliance_attachments :=
                  map (\<lambda>t. if attachment_appliance_id t = appliance_id'
                               \<and> attachment_deleted_at t = None
                            then t\<lparr>attachment_deleted_at := Some now\<rparr> else t)
                    (appliance_attachments db2)\<rparr>
      in db3)"

text \<open>The caller owns the house of an appliance with this identifier.\<close>

definition owns_appliance :: "uuid option \<Rightarrow> uuid \<Rightarrow> database \<Rightarrow> bool" where
  "owns_appliance auth_uid appliance_id' db =
     list_ex (\<lambda>a. appliance_id a = appliance_id'
                  \<and> list_ex (\<lambda>h. house_id h = appliance_house_id a \<and> auth_uid = Some (user_id h))
                       (houses db))
       (interior_appliances db)"

text \<open>
  A database in which user u1 owns house h1 with the appliance a1, which has one repair
  and one attachment; another appliance a2 has a repair of its own.
\<close>

definition household :: database where
  "household =
     \<lparr>houses = [\<lparr>house_id = ''h1'', user_id = ''u1'', house_deleted_at = None,
                 house_info = \<lparr>year_bought = Some 2020, year_sold = None,
                               price_paid = Some 300000, price_sold = None,
                               square_footage = None, country = None\<rparr>\<rparr>],
      interior_appliances =
        [\<lparr>appliance_id = ''a1'', appliance_house_id = ''h1'', purchase_cost = Numeric 1200,
          installation_cost = Numeric 300, appliance_deleted_at = None\<rparr>,
         \<lparr>appliance_id = ''a2'', appliance_house_id = ''h1'', purchase_cost = Null,
          installation_cost = Undefined, appliance_deleted_at = None\<rparr>],
      appliance_repairs =
        [\<lparr>repair_appliance_id = ''a1'', repair_cost = Numeric 150, repair_deleted_at = None\<rparr>,
         \<lparr>repair_appliance_id = ''a2'', repair_cost = Numeric 75, repair_deleted_at = None\<rparr>],
      appliance_attachments =
        [\<lparr>attachment_appliance_id = ''a1'', attachment_file_name = ''manual.pdf'',
          attachment_deleted_at = None\<rparr>],
      exterior_features = [],
      exterior_maintenance = []\<rparr>"

section \<open>File upload (FileUpload component)\<close>

record File =
  f_name :: string
  f_size :: nat
  f_type :: string

record UploadedFile =
  file_name :: string
  file_url :: string
  file_type :: string
  file_size :: nat
  description :: "string option"

text \<open>
  The props the handler reads. \<open>maxFiles\<close> and \<open>maxSizeMB\<close> are natural numbers here;
  the component's defaults are 10 and 5.
\<close>

record FileUploadProps =
  existingFiles :: "UploadedFile list"
  maxFiles :: nat
  maxSizeMB :: nat

definition default_props :: "UploadedFile list \<Rightarrow> FileUploadProps" where
  "default_props existing = \<lparr>existingFiles = existing, maxFiles = 10, maxSizeMB = 5\<rparr>"

text \<open>A natural number inside a template literal.\<close>

fun decimal :: "nat \<Rightarrow> string" where
  "decimal n =
     (if n < 10 then [''0123456789'' ! n]
      else decimal (n div 10) @ [''0123456789'' ! (n mod 10)])"

declare decimal.simps [simp del]

text \<open>
  One turn of the \<open>for\<close> loop, on the pair of the \<open>error\<close> state and the local
  \<open>uploadedFiles\<close>. \<open>fileToBase64\<close> wraps the platform's \<open>FileReader\<close>, so it is a
  parameter: the data URI, or \<open>None\<close> when the reader fails and the promise rejects.
\<close>

definition upload_step ::
  "(File \<Rightarrow> string option) \<Rightarrow> FileUploadProps \<Rightarrow> nat \<Rightarrow> string \<times> UploadedFile list \<Rightarrow> File
     \<Rightarrow> string \<times> UploadedFile list" where
  "upload_step fileToBase64 props maxSize st file =
     (if f_size file > maxSize
      then (''File '' @ f_name file @ '' exceeds '' @ decimal (maxSizeMB props) @ ''MB limit'',
            snd st)
      else (case fileToBase64 file of
              Some base64 \<Rightarrow>
                (fst st,
                 snd st @ [\<lparr>file_name = f_name file, file_url = base64,
                            file_type = (if f_type file = [] then ''application/octet-stream''
                                         else f_type file),
                            file_size = f_size file, description = None\<rparr>])
            | None \<Rightarrow> (''Failed to upload '' @ f_name file, snd st)))"

text \<open>
  The handler takes the selected files (\<open>None\<close> for \<open>null\<close>) and the current \<open>error\<close>
  state; it returns the new \<open>error\<close> state and the argument of \<open>onFilesSelected\<close> when
  the callback is called.
\<close>

definition handleFileSelect ::
  "(File \<Rightarrow> string option) \<Rightarrow> FileUploadProps \<Rightarrow> File list option \<Rightarrow> string
     \<Rightarrow> string \<times> UploadedFile list option" where
  "handleFileSelect fileToBase64 props files error0 =
     (case files of
        None \<Rightarrow> (error0, None)
      | Some fileArray \<Rightarrow>
          if length (existingFiles props) + length fileArray > maxFiles props
          then (''Maximum '' @ decimal (maxFiles props) @ '' files allowed'', None)
          else
            let maxSize = maxSizeMB props * 1024 * 1024;
                st = foldl (upload_step fileToBase64 props maxSize) ([], []) fileArray
            in (fst st, if length (snd st) > 0 then Some (snd st) else None))"

subsection \<open>The outcome of a batch, file by file\<close>

definition uploaded :: "File \<Rightarrow> string \<Rightarrow> UploadedFile" where
  "uploaded file url =
     \<lparr>file_name = f_name file, file_url = url,
      file_type = (if f_type file = [] then ''application/octet-stream'' else f_type file),
      file_size = f_size file, description = None\<rparr>"

text \<open>The files of a batch that are added: within the size limit and read by the reader.\<close>

definition added :: "(File \<Rightarrow> string option) \<Rightarrow> nat \<Rightarrow> File list \<Rightarrow> UploadedFile list" where
  "added reader limit fs =
     List.map_filter
       (\<lambda>f. if f_size f \<le> limit then map_option (uploaded f) (reader f) else None) fs"

definition oversized :: "nat \<Rightarrow> File list \<Rightarrow> File list" where
  "oversized limit fs = filter (\<lambda>f. f_size f > limit) fs"

definition unreadable :: "(File \<Rightarrow> string option) \<Rightarrow> nat \<Rightarrow> File list \<Rightarrow> File list" where
  "unreadable reader limit fs = filter (\<lambda>f. f_size f \<le> limit \<and> reader f = None) fs"

text \<open>Two files for the examples: a small picture and a six-megabyte scan.\<close>

definition photo :: File where
  "photo = \<lparr>f_name = ''photo.png'', f_size = 2048, f_type = ''image/png''\<rparr>"

definition scan :: File where
  "scan = \<lparr>f_name = ''scan.pdf'', f_size = 6291456, f_type = ''application/pdf''\<rparr>"

definition reader_ok :: "File \<Rightarrow> string option" where
  "reader_ok f = Some (''data:'' @ f_type f @ '';base64,AAAA'')"

definition reader_broken :: "File \<Rightarrow> string option" where
  "reader_broken f = None"

section \<open>Results\<close>

subsection \<open>Currency formatter\<close>

text \<open>
  C7. The country table: United States, Other and a missing country give USD, \<open>$\<close>,
  en-US; Canada gives CAD, \<open>C$\<close>, en-CA; Mexico gives MXN, \<open>MX$\<close>, es-MX; the United
  Kingdom gives GBP and en-GB. \<open>formatCurrency(1234.5, 'Canada')\<close> hands the platform the
  locale en-CA, the currency CAD and two fraction digits. The symbol returned for the
  United Kingdom is the two code units U+00C2 U+00A3, not the single pound sign U+00A3.
\<close>

theorem currency_table_uk_symbol:
  "getCurrencySymbol (Some United_Kingdom) = [CHR 0xC2, CHR 0xA3]
   \<and> getCurrencySymbol (Some United_Kingdom) \<noteq> [CHR 0xA3]
   \<and> code (currencyMap United_Kingdom) = ''GBP'' \<and> locale' (currencyMap United_Kingdom) = ''en-GB''
   \<and> currencyMap United_States = \<lparr>code = ''USD'', symbol = ''$'', locale' = ''en-US''\<rparr>
   \<and> currencyMap Canada = \<lparr>code = ''CAD'', symbol = ''C$'', locale' = ''en-CA''\<rparr>
   \<and> currencyMap Mexico = \<lparr>code = ''MXN'', symbol = ''MX$'', locale' = ''es-MX''\<rparr>
   \<and> currencyMap Other = currencyMap United_States
   \<and> country_or_default None = United_States
   \<and> getCurrencySymbol (Some Mexico) = ''MX$''
   \<and> getCurrencySymbol None = ''$''
   \<and> formatCurrency NF (2469 / 2) (Some Canada) no_options
       = NF ''en-CA'' \<lparr>style = ''currency'', currency = ''CAD'',
                        nf_minimumFractionDigits = 2, nf_maximumFractionDigits = 2\<rparr> (2469 / 2)"
  by (simp add: getCurrencySymbol_def country_or_default_def formatCurrency_def no_options_def)

subsection \<open>Room label pluralizer\<close>

lemma split_not_Nil: "split sep s \<noteq> []"
  by (induction s) auto

lemma split_no_sep: "sep \<notin> set w \<Longrightarrow> split sep w = [w]"
  by (induction w) auto

lemma split_snoc: "sep \<notin> set w \<Longrightarrow> split sep (p @ sep # w) = split sep p @ [w]"
  by (induction p) (auto simp: split_no_sep split_not_Nil)

lemma join_split: "join [sep] (split sep s) = s"
proof (induction s)
  case Nil
  then show ?case by simp
next
  case (Cons c cs)
  obtain w ws where sp: "split sep cs = w # ws"
    using split_not_Nil [of sep cs] by (cases "split sep cs") auto
  show ?case
  proof (cases "c = sep")
    case True
    with Cons sp show ?thesis by simp
  next
    case False
    with Cons sp show ?thesis by (cases ws) auto
  qed
qed

lemma join_snoc: "ws \<noteq> [] \<Longrightarrow> join sep (ws @ [x]) = join sep ws @ sep @ x"
  by (induction sep ws rule: join.induct) auto

lemma ends_in_endsWith: "endsWith (toLowerCase w) sfx = ends_in w sfx"
  by (simp add: endsWith_def ends_in_def toLowerCase_def drop_map)

lemma pluralizeWord_rules: "pluralizeWord w = plural_by_rules w"
  by (simp add: pluralizeWord_def plural_by_rules_def ends_in_endsWith slice_0_minus1_def
      butlast_conv_take)

lemma takeWhile_until_sep:
  assumes "sep \<notin> set w"
  shows "takeWhile (\<lambda>c. c \<noteq> sep) (rev w @ sep # r) = rev w"
proof -
  have "\<And>x. x \<in> set (rev w) \<Longrightarrow> x \<noteq> sep" using assms by auto
  then have "takeWhile (\<lambda>c. c \<noteq> sep) (rev w @ sep # r)
             = rev w @ takeWhile (\<lambda>c. c \<noteq> sep) (sep # r)"
    by (rule takeWhile_append2)
  then show ?thesis by simp
qed

lemma dropWhile_until_sep:
  assumes "sep \<notin> set w"
  shows "dropWhile (\<lambda>c. c \<noteq> sep) (rev w @ sep # r) = sep # r"
proof -
  have "\<And>x. x \<in> set (rev w) \<Longrightarrow> x \<noteq> sep" using assms by auto
  then have "dropWhile (\<lambda>c. c \<noteq> sep) (rev w @ sep # r)
             = dropWhile (\<lambda>c. c \<noteq> sep) (sep # r)"
    by (rule dropWhile_append2)
  then show ?thesis by simp
qed

lemma final_word_decomp:
  "CHR '' '' \<notin> set w \<Longrightarrow> final_word (p @ CHR '' '' # w) = w"
  by (simp add: final_word_def takeWhile_until_sep)

lemma before_final_word_decomp:
  "CHR '' '' \<notin> set w \<Longrightarrow> before_final_word (p @ CHR '' '' # w) = p @ '' ''"
  by (simp add: before_final_word_def dropWhile_until_sep)

lemma takeWhile_all: "sep \<notin> set xs \<Longrightarrow> takeWhile (\<lambda>c. c \<noteq> sep) xs = xs"
  by (induction xs) auto

lemma dropWhile_all: "sep \<notin> set xs \<Longrightarrow> dropWhile (\<lambda>c. c \<noteq> sep) xs = []"
  by (induction xs) auto

lemma final_word_no_space:
  assumes "CHR '' '' \<notin> set w"
  shows "final_word w = w"
proof -
  have "CHR '' '' \<notin> set (rev w)" using assms by simp
  then have "takeWhile (\<lambda>c. c \<noteq> CHR '' '') (rev w) = rev w" by (rule takeWhile_all)
  then show ?thesis unfolding final_word_def by (simp only: rev_rev_ident)
qed

lemma before_final_word_no_space:
  assumes "CHR '' '' \<notin> set w"
  shows "before_final_word w = []"
proof -
  have "CHR '' '' \<notin> set (rev w)" using assms by simp
  then have "dropWhile (\<lambda>c. c \<noteq> CHR '' '') (rev w) = []" by (rule dropWhile_all)
  then show ?thesis unfolding before_final_word_def by (simp only: rev.simps)
qed

lemma pluralizeRoomType_compound:
  assumes "CHR '' '' \<notin> set w"
  shows "(let words = split (CHR '' '') (p @ CHR '' '' # w);
             lastWord = words ! (length words - 1);
             words' = words[length words - 1 := f lastWord]
         in join '' '' words') = p @ '' '' @ f w"
  using assms
  by (simp add: split_snoc Let_def nth_append join_snoc split_not_Nil join_split)

text \<open>
  C8. For every room-type name and count: a count of at most 1 returns the name
  unchanged; otherwise only the final word of the name is replaced, by the ordered
  rules (ends in y: drop it and append ies; ends in ch, sh, s, x or z: append es;
  otherwise append s), the suffix test ignoring case and the stem keeping its casing.
  Bedroom at 1 stays Bedroom, at 2 it is Bedrooms; Living Room at 3 is Living Rooms;
  Family at 2 is Families; Bench at 2 is Benches; Patio at 2 is Patios.
\<close>

theorem pluralizeRoomType_label:
  "pluralizeRoomType name count = room_label name count
   \<and> pluralizeRoomType ''Bedroom'' 1 = ''Bedroom''
   \<and> pluralizeRoomType ''Bedroom'' 2 = ''Bedrooms''
   \<and> pluralizeRoomType ''Living Room'' 3 = ''Living Rooms''
   \<and> pluralizeRoomType ''Family'' 2 = ''Families''
   \<and> pluralizeRoomType ''Bench'' 2 = ''Benches''
   \<and> pluralizeRoomType ''Patio'' 2 = ''Patios''"
proof -
  have general: "pluralizeRoomType name count = room_label name count"
  proof (cases "count \<le> 1")
    case True
    then show ?thesis by (simp add: pluralizeRoomType_def room_label_def)
  next
    case False
    show ?thesis
    proof (cases "CHR '' '' \<in> set name")
      case True
      then obtain p w where nm: "name = p @ CHR '' '' # w" and w: "CHR '' '' \<notin> set w"
        using split_list_last [of "CHR '' ''" name] by blast
      show ?thesis
        using False True w pluralizeRoomType_compound [OF w, of p pluralizeWord]
        unfolding nm pluralizeRoomType_def room_label_def
        by (simp add: final_word_decomp before_final_word_decomp pluralizeWord_rules)
    next
      case nosp: False
      with False show ?thesis
        by (simp add: pluralizeRoomType_def room_label_def final_word_no_space
            before_final_word_no_space pluralizeWord_rules)
    qed
  qed
  have examples:
    "pluralizeRoomType ''Bedroom'' 1 = ''Bedroom''
     \<and> pluralizeRoomType ''Bedroom'' 2 = ''Bedrooms''
     \<and> pluralizeRoomType ''Living Room'' 3 = ''Living Rooms''
     \<and> pluralizeRoomType ''Family'' 2 = ''Families''
     \<and> pluralizeRoomType ''Bench'' 2 = ''Benches''
     \<and> pluralizeRoomType ''Patio'' 2 = ''Patios''"
    by code_simp
  from general examples show ?thesis by (rule conjI)
qed

theorem pluralizeRoomType_label_witness:
  "pluralizeRoomType ''HALF BATH'' (5 / 2) = ''HALF BATHs''
   \<and> room_label ''Sun Porch'' 2 = ''Sun Porches''
   \<and> room_label ''PANTRY'' 4 = ''PANTRies''"
proof -
  have a: "room_label ''HALF BATH'' (5 / 2) = ''HALF BATHs''" by code_simp
  have b: "pluralizeRoomType ''Sun Porch'' 2 = ''Sun Porches''" by code_simp
  have c: "pluralizeRoomType ''PANTRY'' 4 = ''PANTRies''" by code_simp
  from a b c show ?thesis
    using pluralizeRoomType_label [of "''HALF BATH''" "5 / 2"]
      pluralizeRoomType_label [of "''Sun Porch''" 2]
      pluralizeRoomType_label [of "''PANTRY''" 4]
    by simp
qed

subsection \<open>Doubles\<close>

text \<open>Evaluating the rounding on numerals, and some doubles as a check of it.\<close>

lemma floor_rat_numeral_divide:
  "\<lfloor>(numeral a :: rat) / numeral b\<rfloor> = numeral a div numeral b"
  using floor_divide_of_int_eq [of "numeral a" "numeral b", where ?'a = rat] by simp

lemmas binary64_eval = binary64_def scale_down.simps scale_up.simps round_half_even_def pow2_def
  Let_def floor_rat_numeral_divide

lemma binary64_0 [simp]: "binary64 0 = 0"
  by (simp add: binary64_def)

lemma binary64_examples:
  "binary64 (1 / 10) = 3602879701896397 / 2 ^ 55"
  "binary64 (- (1 / 10)) = - (3602879701896397 / 2 ^ 55)"
  "binary64 (2 ^ 53 + 1) = 2 ^ 53"
  "binary64 (2 ^ 53 + 3) = 2 ^ 53 + 4"
  "binary64 (1 / 3) = 6004799503160661 / 2 ^ 54"
  "binary64 (10 ^ 22) = 10 ^ 22"
  "binary64 (10 ^ 23) = 10 ^ 23 - 8388608"
  by (simp_all add: binary64_eval)

text \<open>A whole amount below 2^53 is a double, and so is a sum of two that stays below.\<close>

lemma pow2_step: "2 * pow2 (e - 1) = pow2 e"
proof (cases "1 \<le> e")
  case True
  then have n: "nat e = Suc (nat (e - 1))" by linarith
  have "pow2 e = 2 ^ nat e" using True by (simp add: pow2_def)
  also have "\<dots> = 2 * 2 ^ nat (e - 1)" by (simp only: n power_Suc)
  also have "2 ^ nat (e - 1) = pow2 (e - 1)" using True by (simp add: pow2_def)
  finally show ?thesis by (rule sym)
next
  case False
  then have n: "nat (- (e - 1)) = Suc (nat (- e))" by linarith
  have "pow2 (e - 1) = 1 / 2 ^ nat (- (e - 1))" using False by (simp add: pow2_def)
  also have "\<dots> = 1 / (2 * 2 ^ nat (- e))" by (simp only: n power_Suc)
  finally have "2 * pow2 (e - 1) = 1 / 2 ^ nat (- e)" by simp
  also have "\<dots> = pow2 e" using False by (simp add: pow2_def)
  finally show ?thesis .
qed

lemma scale_up_stop: "\<not> (m < 2 ^ 52 \<and> - 1074 < e) \<Longrightarrow> scale_up m e = (m, e)"
  by (subst scale_up.simps) auto

lemma scale_up_go:
  "m < 2 ^ 52 \<Longrightarrow> - 1074 < e \<Longrightarrow> scale_up m e = scale_up (2 * m) (e - 1)"
  by (subst scale_up.simps) simp

lemma scale_down_stop: "m < 2 ^ 53 \<Longrightarrow> scale_down m e = (m, e)"
  by (subst scale_down.simps) simp

lemma scale_up_value:
  "scale_up m e = (m2, e2) \<Longrightarrow> m2 * pow2 e2 = m * pow2 e"
proof (induction m e rule: scale_up.induct)
  case (1 m e)
  show ?case
  proof (cases "m < 2 ^ 52 \<and> - 1074 < e")
    case True
    then have "scale_up (2 * m) (e - 1) = (m2, e2)"
      using "1.prems" scale_up_go [of m e] by simp
    then have "m2 * pow2 e2 = 2 * m * pow2 (e - 1)"
      using "1.IH" True by blast
    also have "\<dots> = m * (2 * pow2 (e - 1))" by (simp only: mult.assoc mult.left_commute)
    also have "\<dots> = m * pow2 e" by (simp only: pow2_step)
    finally show ?thesis .
  next
    case False
    then have "scale_up m e = (m, e)" by (rule scale_up_stop)
    with "1.prems" show ?thesis by simp
  qed
qed

lemma scale_up_Ints:
  "scale_up m e = (m2, e2) \<Longrightarrow> m \<in> \<int> \<Longrightarrow> m2 \<in> \<int>"
proof (induction m e rule: scale_up.induct)
  case (1 m e)
  show ?case
  proof (cases "m < 2 ^ 52 \<and> - 1074 < e")
    case True
    then have "scale_up (2 * m) (e - 1) = (m2, e2)"
      using "1.prems"(1) scale_up_go [of m e] by simp
    moreover have "2 * m \<in> \<int>" using "1.prems"(2) by (intro Ints_mult) simp_all
    ultimately show ?thesis using "1.IH" True by blast
  next
    case False
    then have "scale_up m e = (m, e)" by (rule scale_up_stop)
    with "1.prems" show ?thesis by simp
  qed
qed

lemma round_half_even_Ints:
  assumes "q \<in> \<int>"
  shows "of_int (round_half_even q) = q"
proof -
  from assms obtain k where q: "q = of_int k" by (rule Ints_cases)
  show ?thesis unfolding q by (simp add: round_half_even_def)
qed

lemma whole_iff: "whole v \<longleftrightarrow> 0 \<le> v \<and> v \<in> \<int>"
proof -
  have "(of_int \<lfloor>v\<rfloor> = v) = (v \<in> \<int>)"
  proof
    assume "of_int \<lfloor>v\<rfloor> = v"
    then have "v = of_int \<lfloor>v\<rfloor>" by (rule sym)
    then show "v \<in> \<int>" by (rule ssubst) (rule Ints_of_int)
  next
    assume "v \<in> \<int>"
    then obtain k where "v = of_int k" by (rule Ints_cases)
    then show "of_int \<lfloor>v\<rfloor> = v" by simp
  qed
  then show ?thesis by (simp only: whole_def)
qed

lemma binary64_whole:
  assumes "whole v" and "v < 2 ^ 53"
  shows "binary64 v = v"
proof (cases "v = 0")
  case True
  then show ?thesis by simp
next
  case False
  from assms(1) have nonneg: "0 \<le> v" and int: "v \<in> \<int>"
    by (simp_all only: whole_iff)
  from nonneg False have pos: "0 < v" by simp
  then have abs: "\<bar>v\<bar> = v" and sgn: "sgn v = 1" by simp_all
  have down: "scale_down v 0 = (v, 0)"
    using assms(2) by (rule scale_down_stop)
  obtain m2 e2 where up: "scale_up v 0 = (m2, e2)" by (cases "scale_up v 0")
  have "m2 * pow2 e2 = v * pow2 0" using up by (rule scale_up_value)
  then have val: "m2 * pow2 e2 = v" by (simp add: pow2_def)
  have "m2 \<in> \<int>" using up int by (rule scale_up_Ints)
  then have rnd: "of_int (round_half_even m2) = m2" by (rule round_half_even_Ints)
  have "binary64 v =
          (let (m1, e1) = scale_down v 0; (m2, e2) = scale_up m1 e1
           in sgn v * of_int (round_half_even m2) * pow2 e2)"
    using False by (simp only: binary64_def abs if_False)
  also have "\<dots> = sgn v * of_int (round_half_even m2) * pow2 e2"
    by (simp only: down up Let_def prod.case)
  also have "\<dots> = m2 * pow2 e2" by (simp only: sgn rnd mult_1)
  also have "\<dots> = v" by (rule val)
  finally show ?thesis .
qed

lemma js_add_whole:
  assumes "whole a" and "whole b" and "a + b < 2 ^ 53"
  shows "js_add a b = a + b" and "whole (a + b)"
proof -
  from assms(1,2) have "0 \<le> a" "0 \<le> b" "a \<in> \<int>" "b \<in> \<int>"
    by (simp_all only: whole_iff)
  then have "0 \<le> a + b" and "a + b \<in> \<int>" by (simp_all add: Ints_add)
  then show w: "whole (a + b)" by (simp only: whole_iff)
  show "js_add a b = a + b" unfolding js_add_def using w assms(3) by (rule binary64_whole)
qed

lemma whole_0 [simp]: "whole 0"
  by (simp add: whole_def)

lemma whole_numeral [simp]: "whole (numeral k)"
  by (simp add: whole_def)

lemma binary64_numeral:
  "(numeral k :: rat) < 2 ^ 53 \<Longrightarrow> binary64 (numeral k) = numeral k"
  using binary64_whole [of "numeral k"] by simp

lemma js_add_exact:
  "whole a \<Longrightarrow> whole b \<Longrightarrow> a + b < 2 ^ 53 \<Longrightarrow> js_add a b = a + b"
  using js_add_whole(1) [of a b] by simp

subsection \<open>Cost dashboard: the aggregate\<close>

lemma or_zero_Some [simp]: "or_zero (Some n) = n"
  by (simp add: or_zero_def)

lemma or_zero_Number: "or_zero (Number c) = binary64 (coalesce c)"
  by (cases c) (simp_all add: or_zero_def)

lemma reduce_cost_double_total: "reduce_cost field (Some xs) = double_total field xs"
  by (simp add: reduce_cost_def double_total_def foldl_map or_zero_Number)

lemma active_repairs_Nil: "active_repairs db [] = []"
  by (simp add: active_repairs_def)

lemma house_purchase_on:
  "(case maybeSingle (active_house db hid) of Rejected \<Rightarrow> None | Fulfilled r \<Rightarrow> Some r) = Some r
   \<Longrightarrow> (case data r of None \<Rightarrow> 0 | Some h \<Rightarrow> or_zero (price_paid h)) = purchase_price db hid"
  by (auto simp: maybeSingle_def purchase_price_def failed_def or_zero_def
      split: list.splits option.splits)

text \<open>A column of whole amounts whose sum, on top of the running sum, stays below 2^53.\<close>

lemma foldl_js_add_whole:
  assumes "list_all whole vs" and "whole a" and "a + sum_list vs < 2 ^ 53"
  shows "foldl js_add a (map binary64 vs) = a + sum_list vs"
  using assms
proof (induction vs arbitrary: a)
  case Nil
  then show ?case by simp
next
  case (Cons v vs)
  from Cons.prems(1) have v: "whole v" and vs: "list_all whole vs" by simp_all
  have rest: "0 \<le> sum_list vs"
    using vs by (induction vs) (simp_all add: whole_def)
  have a0: "0 \<le> a" using Cons.prems(2) by (simp add: whole_def)
  have v0: "0 \<le> v" using v by (simp add: whole_def)
  have "v < 2 ^ 53" using Cons.prems(3) rest a0 by simp
  with v have bv: "binary64 v = v" by (rule binary64_whole)
  have small: "a + v < 2 ^ 53" using Cons.prems(3) rest by simp
  have add: "js_add a v = a + v" and w: "whole (a + v)"
    using js_add_whole [OF Cons.prems(2) v small] by simp_all
  have "a + v + sum_list vs < 2 ^ 53" using Cons.prems(3) by (simp add: add.assoc)
  with vs w have "foldl js_add (a + v) (map binary64 vs) = a + v + sum_list vs"
    by (rule Cons.IH)
  then show ?case by (simp add: bv add add.assoc)
qed

lemma double_total_whole:
  assumes "whole_column field xs" and "total_of field xs < 2 ^ 53"
  shows "double_total field xs = total_of field xs"
proof -
  have "list_all whole (map (\<lambda>x. coalesce (field x)) xs)"
    using assms(1) by (simp add: whole_column_def list_all_iff)
  moreover have "0 + sum_list (map (\<lambda>x. coalesce (field x)) xs) < 2 ^ 53"
    using assms(2) by (simp add: total_of_def)
  ultimately have "foldl js_add 0 (map binary64 (map (\<lambda>x. coalesce (field x)) xs))
                   = 0 + sum_list (map (\<lambda>x. coalesce (field x)) xs)"
    using whole_0 by (intro foldl_js_add_whole)
  then show ?thesis by (simp add: double_total_def total_of_def comp_def)
qed

lemma total_of_whole:
  "whole_column field xs \<Longrightarrow> whole (total_of field xs)"
proof (induction xs)
  case Nil
  then show ?case by (simp add: total_of_def)
next
  case (Cons x xs)
  then have "whole (coalesce (field x))" and "whole (total_of field xs)"
    by (simp_all add: whole_column_def)
  then have "0 \<le> coalesce (field x) + total_of field xs"
    and "coalesce (field x) + total_of field xs \<in> \<int>"
    by (simp_all add: whole_iff Ints_add)
  then show ?case by (simp add: whole_iff total_of_def)
qed

lemma loadCosts_breakdown:
  assumes "hid \<noteq> []"
  shows "costs (loadCosts (supabase_on db) (Some hid) w) =
     \<lparr>housePurchase = purchase_price db hid,
      appliances = double_total purchase_cost (active_appliances db hid),
      applianceInstallation = double_total installation_cost (active_appliances db hid),
      applianceRepairs =
        double_total repair_cost (active_repairs db (map appliance_id (active_appliances db hid))),
      exteriorFeatures = double_total build_cost (active_features db hid),
      exteriorMaintenance = double_total cost (active_maintenance db hid),
      totalCost =
        js_add (js_add (js_add (js_add (js_add (purchase_price db hid)
          (double_total purchase_cost (active_appliances db hid)))
          (double_total installation_cost (active_appliances db hid)))
          (double_total repair_cost
             (active_repairs db (map appliance_id (active_appliances db hid)))))
          (double_total build_cost (active_features db hid)))
          (double_total cost (active_maintenance db hid))\<rparr>"
proof -
  have "\<exists>r. maybeSingle (active_house db hid) = Fulfilled r"
    by (simp add: maybeSingle_def failed_def split: list.split)
  then obtain r where r: "maybeSingle (active_house db hid) = Fulfilled r" ..
  have hp: "(case data r of None \<Rightarrow> 0 | Some h \<Rightarrow> or_zero (price_paid h)) = purchase_price db hid"
    using house_purchase_on [of db hid r] r by simp
  show ?thesis
  proof (cases "active_appliances db hid = []")
    case True
    then show ?thesis
      using assms r hp
      by (simp add: loadCosts_def supabase_on_def Promise_all_def rows_def Let_def
          reduce_cost_double_total active_repairs_Nil double_total_def)
  next
    case False
    then show ?thesis
      using assms r hp
      by (simp add: loadCosts_def supabase_on_def Promise_all_def rows_def Let_def
          reduce_cost_double_total)
  qed
qed

lemma sum_whole_exact:
  assumes "whole a" and "whole b" and "a + b \<le> t" and "t < 2 ^ 53"
  shows "js_add a b = a + b \<and> whole (a + b)"
proof -
  from assms(3,4) have "a + b < 2 ^ 53" by simp
  with assms(1,2) show ?thesis using js_add_whole by simp
qed

lemma whole_nonneg: "whole v \<Longrightarrow> 0 \<le> v"
  by (simp add: whole_def)

lemma double_breakdown_whole:
  assumes w: "whole_amounts db hid" and small: "totalCost (exact_breakdown db hid) < 2 ^ 53"
  shows "double_breakdown db hid = exact_breakdown db hid"
proof -
  let ?hp = "purchase_price db hid"
  let ?a = "total_of purchase_cost (active_appliances db hid)"
  let ?i = "total_of installation_cost (active_appliances db hid)"
  let ?r = "total_of repair_cost (active_repairs db (map appliance_id (active_appliances db hid)))"
  let ?f = "total_of build_cost (active_features db hid)"
  let ?m = "total_of cost (active_maintenance db hid)"
  let ?t = "?hp + ?a + ?i + ?r + ?f + ?m"
  have t: "?t < 2 ^ 53" using small by (simp add: exact_breakdown_def)
  from w have whp: "whole ?hp"
    and ca: "whole_column purchase_cost (active_appliances db hid)"
    and ci: "whole_column installation_cost (active_appliances db hid)"
    and cr: "whole_column repair_cost
               (active_repairs db (map appliance_id (active_appliances db hid)))"
    and cf: "whole_column build_cost (active_features db hid)"
    and cm: "whole_column cost (active_maintenance db hid)"
    by (simp_all add: whole_amounts_def)
  have wa: "whole ?a" and wi: "whole ?i" and wr: "whole ?r" and wf: "whole ?f"
    and wm: "whole ?m"
    using ca ci cr cf cm by (simp_all add: total_of_whole)
  note nn = whole_nonneg [OF whp] whole_nonneg [OF wa] whole_nonneg [OF wi]
    whole_nonneg [OF wr] whole_nonneg [OF wf] whole_nonneg [OF wm]
  have da: "double_total purchase_cost (active_appliances db hid) = ?a"
    using ca by (rule double_total_whole) (use nn t in linarith)
  have di: "double_total installation_cost (active_appliances db hid) = ?i"
    using ci by (rule double_total_whole) (use nn t in linarith)
  have dr: "double_total repair_cost
              (active_repairs db (map appliance_id (active_appliances db hid))) = ?r"
    using cr by (rule double_total_whole) (use nn t in linarith)
  have df: "double_total build_cost (active_features db hid) = ?f"
    using cf by (rule double_total_whole) (use nn t in linarith)
  have dm: "double_total cost (active_maintenance db hid) = ?m"
    using cm by (rule double_total_whole) (use nn t in linarith)
  have s1: "js_add ?hp ?a = ?hp + ?a \<and> whole (?hp + ?a)"
    using whp wa _ t by (rule sum_whole_exact) (use nn in linarith)
  then have s2: "js_add (?hp + ?a) ?i = ?hp + ?a + ?i \<and> whole (?hp + ?a + ?i)"
    using wi t sum_whole_exact [of "?hp + ?a" ?i ?t] nn by simp
  then have s3: "js_add (?hp + ?a + ?i) ?r = ?hp + ?a + ?i + ?r \<and> whole (?hp + ?a + ?i + ?r)"
    using wr t sum_whole_exact [of "?hp + ?a + ?i" ?r ?t] nn by simp
  then have s4: "js_add (?hp + ?a + ?i + ?r) ?f = ?hp + ?a + ?i + ?r + ?f
                 \<and> whole (?hp + ?a + ?i + ?r + ?f)"
    using wf t sum_whole_exact [of "?hp + ?a + ?i + ?r" ?f ?t] nn by simp
  then have s5: "js_add (?hp + ?a + ?i + ?r + ?f) ?m = ?t"
    using wm t sum_whole_exact [of "?hp + ?a + ?i + ?r + ?f" ?m ?t] by simp
  show ?thesis
    unfolding double_breakdown_def exact_breakdown_def
    by (simp only: da di dr df dm s1 s2 s3 s4 s5)
qed

lemma scenario_exact:
  "exact_breakdown scenario ''h1'' =
     \<lparr>housePurchase = 300000, appliances = 1200, applianceInstallation = 300,
      applianceRepairs = 150, exteriorFeatures = 5000, exteriorMaintenance = 800,
      totalCost = 307450\<rparr>"
  by (simp add: exact_breakdown_def scenario_def purchase_price_def active_house_def
      active_appliances_def active_repairs_def active_features_def active_maintenance_def
      total_of_def)

lemma scenario_whole: "whole_amounts scenario ''h1''"
  by (simp add: whole_amounts_def whole_column_def scenario_def purchase_price_def
      active_house_def active_appliances_def active_repairs_def active_features_def
      active_maintenance_def)

lemma scenario_breakdown:
  "costs (loadCosts (supabase_on scenario) (Some ''h1'') initial) =
     \<lparr>housePurchase = 300000, appliances = 1200, applianceInstallation = 300,
      applianceRepairs = 150, exteriorFeatures = 5000, exteriorMaintenance = 800,
      totalCost = 307450\<rparr>"
proof -
  have "''h1'' \<noteq> []" by simp
  then have "costs (loadCosts (supabase_on scenario) (Some ''h1'') initial)
             = double_breakdown scenario ''h1''"
    unfolding double_breakdown_def by (rule loadCosts_breakdown)
  also have "\<dots> = exact_breakdown scenario ''h1''"
    using scenario_whole by (rule double_breakdown_whole) (simp add: scenario_exact)
  finally show ?thesis by (simp only: scenario_exact)
qed



text \<open>The doubles nearest to 0.1, 0.2 and 0.3, and their sums in both orders.\<close>

lemma tenths:
  "binary64 (1 / 10) = 3602879701896397 / 36028797018963968"
  "binary64 (1 / 5) = 3602879701896397 / 18014398509481984"
  "binary64 (3 / 10) = 5404319552844595 / 18014398509481984"
  by (simp_all add: binary64_eval)

lemma tenths_again:
  "binary64 (3602879701896397 / 36028797018963968) = 3602879701896397 / 36028797018963968"
  "binary64 (5404319552844595 / 18014398509481984) = 5404319552844595 / 18014398509481984"
  "binary64 (1351079888211149 / 2251799813685248) = 1351079888211149 / 2251799813685248"
  "binary64 (5404319552844595 / 9007199254740992) = 5404319552844595 / 9007199254740992"
  by (simp_all add: binary64_eval)

lemma tenths_forward:
  "js_add (js_add (js_add 0 (3602879701896397 / 36028797018963968))
                  (3602879701896397 / 18014398509481984))
          (5404319552844595 / 18014398509481984)
   = 1351079888211149 / 2251799813685248"
  by (simp add: js_add_def binary64_eval)

lemma tenths_backward:
  "js_add (js_add (js_add 0 (5404319552844595 / 18014398509481984))
                  (3602879701896397 / 18014398509481984))
          (3602879701896397 / 36028797018963968)
   = 5404319552844595 / 9007199254740992"
  by (simp add: js_add_def binary64_eval)

lemma small_change_rows:
  "active_appliances small_change ''h1'' = interior_appliances small_change"
  "active_appliances small_change_reversed ''h1'' = rev (interior_appliances small_change)"
  "active_house small_change ''h1'' = [house_info (hd (houses small_change))]"
  "active_features small_change ''h1'' = []"
  "active_maintenance small_change ''h1'' = []"
  "active_repairs small_change ids = []"
  by (simp_all add: active_appliances_def active_house_def active_features_def
      active_maintenance_def active_repairs_def small_change_def small_change_reversed_def)

lemma small_change_forward:
  "double_total purchase_cost (active_appliances small_change ''h1'')
     = 1351079888211149 / 2251799813685248"
  unfolding small_change_rows
  by (simp add: double_total_def small_change_def tenths) (simp only: tenths_forward)

lemma small_change_backward:
  "double_total purchase_cost (active_appliances small_change_reversed ''h1'')
     = 5404319552844595 / 9007199254740992"
  unfolding small_change_rows
  by (simp add: double_total_def small_change_def tenths) (simp only: tenths_backward)

lemma small_change_total:
  "totalCost (double_breakdown small_change ''h1'') = 1351079888211149 / 2251799813685248"
proof -
  have z: "double_total installation_cost (active_appliances small_change ''h1'') = 0"
    unfolding small_change_rows
    by (simp add: double_total_def small_change_def js_add_def)
  have e: "double_total f [] = 0" for f :: "'a \<Rightarrow> cell"
    by (simp add: double_total_def)
  have p: "purchase_price small_change ''h1'' = 0"
    by (simp add: purchase_price_def small_change_rows) (simp add: small_change_def)
  show ?thesis
    by (simp add: double_breakdown_def small_change_forward z p)
       (simp add: small_change_rows e js_add_def tenths_again)
qed


subsection \<open>Cost dashboard: failed reads\<close>

text \<open>
  When one of the four first reads rejects, the \<open>catch\<close> block runs: the error is
  logged and the stored breakdown and house record stay as they were.
\<close>

lemma loadCosts_rejected:
  assumes "hid \<noteq> []"
    and "from_houses sb hid = Rejected \<or> from_interior_appliances sb hid = Rejected
         \<or> from_exterior_features sb hid = Rejected \<or> from_exterior_maintenance sb hid = Rejected"
  shows "costs (loadCosts sb (Some hid) w) = costs w
         \<and> houseInfo (loadCosts sb (Some hid) w) = houseInfo w
         \<and> console (loadCosts sb (Some hid) w) = console w @ [''Error loading costs:'']
         \<and> loading (loadCosts sb (Some hid) w) = False"
proof -
  have "Promise_all (from_houses sb hid) (from_interior_appliances sb hid)
          (from_exterior_features sb hid) (from_exterior_maintenance sb hid) = None"
    using assms(2) by (auto simp: Promise_all_def split: settled.splits)
  then show ?thesis
    using assms(1) by (simp add: loadCosts_def catch_finally_def Let_def)
qed

lemma outage_state: "loadCosts outage (Some ''h1'') initial =
     initial\<lparr>costs := \<lparr>housePurchase = 300000, appliances = 0, applianceInstallation = 0,
                        applianceRepairs = 0, exteriorFeatures = 5000,
                        exteriorMaintenance = 800, totalCost = 305800\<rparr>,
             houseInfo := Some (house_info (hd (houses scenario))),
             loading := False,
             requests := [''houses'', ''interior_appliances'', ''exterior_features'',
                          ''exterior_maintenance'']\<rparr>"
  by (simp add: loadCosts_def outage_def supabase_on_def Promise_all_def rows_def failed_def
      Let_def scenario_def initial_def maybeSingle_def active_house_def active_features_def
      active_maintenance_def reduce_cost_def or_zero_def js_add_exact binary64_numeral)

lemma offline_state: "loadCosts offline (Some ''h1'') initial =
     initial\<lparr>loading := False,
             requests := [''houses'', ''interior_appliances'', ''exterior_features'',
                          ''exterior_maintenance'']\<rparr>"
  by (simp add: loadCosts_def offline_def Promise_all_def failed_def
      Let_def initial_def reduce_cost_def js_add_exact)

lemma offline_view: "CostDashboard 2026 (Some ''h1'') (loadCosts offline (Some ''h1'') initial) =
    Dashboard_view (costs initial) None None None"
  by (subst offline_state)+ (simp add: CostDashboard_def initial_def yearsOwned_def truthy_def costPerYear_def)

lemma outage_view: "CostDashboard 2026 (Some ''h1'') (loadCosts outage (Some ''h1'') initial) =
    Dashboard_view \<lparr>housePurchase = 300000, appliances = 0, applianceInstallation = 0,
                        applianceRepairs = 0, exteriorFeatures = 5000,
                        exteriorMaintenance = 800, totalCost = 305800\<rparr> None (Some 6) (Some (152900 / 3))"
  by (subst outage_state)+ (simp add: CostDashboard_def initial_def yearsOwned_def truthy_def costPerYear_def scenario_def)

text \<open>
  C2. A read that fails must be reported and must leave the prior or the loading state
  on display. The code does otherwise: with the appliance read failed, \<open>loadCosts\<close>
  writes nothing to the console, stores a breakdown whose appliance figures are 0 and
  whose total is 305800 instead of 307450, and the component shows it as the dashboard;
  with every read failed it shows the all-zero breakdown.
\<close>

theorem loadCosts_failed_read_presented:
  "from_interior_appliances outage ''h1'' = Fulfilled \<lparr>data = None, error = Some ''TypeError: Failed to fetch''\<rparr>
   \<and> console (loadCosts outage (Some ''h1'') initial) = []
   \<and> loading (loadCosts outage (Some ''h1'') initial) = False
   \<and> costs (loadCosts outage (Some ''h1'') initial) =
       \<lparr>housePurchase = 300000, appliances = 0, applianceInstallation = 0,
        applianceRepairs = 0, exteriorFeatures = 5000, exteriorMaintenance = 800,
        totalCost = 305800\<rparr>
   \<and> CostDashboard 2026 (Some ''h1'') (loadCosts outage (Some ''h1'') initial) =
       Dashboard_view \<lparr>housePurchase = 300000, appliances = 0, applianceInstallation = 0,
                       applianceRepairs = 0, exteriorFeatures = 5000,
                       exteriorMaintenance = 800, totalCost = 305800\<rparr>
         None (Some 6) (Some (152900 / 3))
   \<and> console (loadCosts offline (Some ''h1'') initial) = []
   \<and> CostDashboard 2026 (Some ''h1'') (loadCosts offline (Some ''h1'') initial) =
       Dashboard_view \<lparr>housePurchase = 0, appliances = 0, applianceInstallation = 0,
                       applianceRepairs = 0, exteriorFeatures = 0,
                       exteriorMaintenance = 0, totalCost = 0\<rparr>
         None None None"
proof -
  have a: "from_interior_appliances outage ''h1''
           = Fulfilled \<lparr>data = None, error = Some ''TypeError: Failed to fetch''\<rparr>"
    by (simp add: outage_def failed_def)
  have b: "console (loadCosts outage (Some ''h1'') initial) = []
           \<and> loading (loadCosts outage (Some ''h1'') initial) = False
           \<and> costs (loadCosts outage (Some ''h1'') initial) =
               \<lparr>housePurchase = 300000, appliances = 0, applianceInstallation = 0,
                applianceRepairs = 0, exteriorFeatures = 5000, exteriorMaintenance = 800,
                totalCost = 305800\<rparr>"
    by (subst outage_state)+ (simp add: initial_def)
  have c: "console (loadCosts offline (Some ''h1'') initial) = []"
    by (subst offline_state) (simp add: initial_def)
  have d: "costs initial = \<lparr>housePurchase = 0, appliances = 0, applianceInstallation = 0,
                       applianceRepairs = 0, exteriorFeatures = 0,
                       exteriorMaintenance = 0, totalCost = 0\<rparr>"
    by (simp add: initial_def)
  from a b c show ?thesis
    by (simp only: outage_view offline_view d simp_thms)
qed

subsection \<open>Cost dashboard: the repair lookup\<close>

lemma repair_lookup_with_appliances:
  assumes "hid \<noteq> []" and "active_appliances db hid \<noteq> []"
  shows "requests (loadCosts (supabase_on db) (Some hid) w)
           = requests w @ [''houses'', ''interior_appliances'', ''exterior_features'',
                           ''exterior_maintenance'', ''appliance_repairs'']"
proof -
  have "\<exists>r. maybeSingle (active_house db hid) = Fulfilled r"
    by (simp add: maybeSingle_def failed_def split: list.split)
  then obtain r where r: "maybeSingle (active_house db hid) = Fulfilled r" ..
  show ?thesis
    using assms r
    by (simp add: loadCosts_def supabase_on_def Promise_all_def rows_def Let_def)
qed

text \<open>
  C3. For every house without a non-deleted appliance, \<open>loadCosts\<close> reads the four
  tables of its first phase and nothing else, so no repair lookup is issued, and the
  breakdown's \<open>applianceRepairs\<close> is 0.
\<close>

theorem no_repair_lookup_without_appliances:
  assumes "hid \<noteq> []" and "active_appliances db hid = []"
  shows "requests (loadCosts (supabase_on db) (Some hid) w)
           = requests w @ [''houses'', ''interior_appliances'', ''exterior_features'',
                           ''exterior_maintenance'']
         \<and> ''appliance_repairs''
             \<notin> set (drop (length (requests w)) (requests (loadCosts (supabase_on db) (Some hid) w)))
         \<and> applianceRepairs (costs (loadCosts (supabase_on db) (Some hid) w)) = 0"
proof -
  have "\<exists>r. maybeSingle (active_house db hid) = Fulfilled r"
    by (simp add: maybeSingle_def failed_def split: list.split)
  then obtain r where r: "maybeSingle (active_house db hid) = Fulfilled r" ..
  show ?thesis
    using assms r
    by (simp add: loadCosts_def supabase_on_def Promise_all_def rows_def Let_def)
qed


text \<open>The scenario without its appliance: the repair row stays in the table, unread.\<close>

theorem no_repair_lookup_without_appliances_witness:
  "active_appliances (scenario\<lparr>interior_appliances := []\<rparr>) ''h1'' = []
   \<and> appliance_repairs (scenario\<lparr>interior_appliances := []\<rparr>) \<noteq> []
   \<and> requests (loadCosts (supabase_on (scenario\<lparr>interior_appliances := []\<rparr>)) (Some ''h1'') initial)
       = [''houses'', ''interior_appliances'', ''exterior_features'', ''exterior_maintenance'']
   \<and> applianceRepairs
        (costs (loadCosts (supabase_on (scenario\<lparr>interior_appliances := []\<rparr>)) (Some ''h1'') initial))
       = 0"
proof -
  have h: "''h1'' \<noteq> []" by simp
  have e: "active_appliances (scenario\<lparr>interior_appliances := []\<rparr>) ''h1'' = []"
    by (simp add: active_appliances_def)
  have r: "appliance_repairs (scenario\<lparr>interior_appliances := []\<rparr>) \<noteq> []"
    by (simp add: scenario_def)
  have i: "requests initial = []" by (simp add: initial_def)
  from no_repair_lookup_without_appliances [OF h e, of initial] e r i show ?thesis
    by simp
qed

subsection \<open>House lifecycle: profit, years owned, cost per year\<close>

lemma truthy_cases:
  "truthy x = (if x = None \<or> x = Some 0 then None else x)"
  by (cases x) (simp_all add: truthy_def)

text \<open>
  C4, as the code has it. The profit is defined exactly when a house record is loaded
  and its sale price is present and not 0; it is then the sale price minus the total
  cost, which may be negative. Without a sale price, or with a sale price of 0, it is
  absent.
\<close>

theorem profit_defined_iff_nonzero_sale:
  "(profit (Some h) cs \<noteq> None) = (\<exists>p. price_sold h = Some p \<and> p \<noteq> 0)
   \<and> (price_sold h = Some p \<and> p \<noteq> 0 \<longrightarrow> profit (Some h) cs = Some (p - totalCost cs))
   \<and> (price_sold h = None \<or> price_sold h = Some 0 \<longrightarrow> profit (Some h) cs = None)
   \<and> profit None cs = None"
proof -
  have absent: "profit (Some h) cs = None" if "price_sold h = None \<or> price_sold h = Some 0"
    using that by (auto simp: profit_def truthy_cases)
  have present: "profit (Some h) cs = Some (q - totalCost cs)"
    if "price_sold h = Some q" and "q \<noteq> 0" for q
    using that by (simp add: profit_def truthy_cases)
  have defined: "(profit (Some h) cs \<noteq> None) = (\<exists>p. price_sold h = Some p \<and> p \<noteq> 0)"
  proof (cases "price_sold h")
    case None
    with absent show ?thesis by simp
  next
    case (Some q)
    show ?thesis
    proof (cases "q = 0")
      case True
      with Some absent show ?thesis by simp
    next
      case False
      with Some present [of q] show ?thesis by simp
    qed
  qed
  have no_house: "profit None cs = None" by (simp add: profit_def)
  from defined present [of p] absent no_house show ?thesis by blast
qed


text \<open>A house sold for 300000 after a total cost of 307450 has the profit -7450; the
  unsold house of the scenario has none.\<close>

theorem profit_defined_iff_nonzero_sale_witness:
  "profit (Some sold_house) scenario_costs = Some (- 7450)
   \<and> profit (Some (house_info (hd (houses scenario)))) scenario_costs = None"
  using profit_defined_iff_nonzero_sale [of sold_house scenario_costs 300000]
    profit_defined_iff_nonzero_sale [of "house_info (hd (houses scenario))" scenario_costs 0]
  by (simp add: sold_house_def scenario_costs_def scenario_def)


text \<open>
  C4 as stated fails where the recorded sale price is 0: the price is present and the
  profit is absent.
\<close>

theorem profit_zero_sale_price_counterexample:
  "price_sold given_away = Some 0 \<and> profit (Some given_away) scenario_costs = None"
  by (simp add: given_away_def profit_def truthy_def)


text \<open>
  C5. The per-year figure is defined exactly when \<open>yearsOwned\<close> is present and greater
  than 0, and is then the total cost divided by \<open>yearsOwned\<close>; a \<open>yearsOwned\<close> of 0 or
  below gives none. It is the figure the rendered dashboard carries.
\<close>

theorem costPerYear_guarded:
  "(costPerYear currentYear hi cs \<noteq> None) = (\<exists>y. yearsOwned currentYear hi = Some y \<and> 0 < y)
   \<and> (yearsOwned currentYear hi = Some y \<and> 0 < y
        \<longrightarrow> costPerYear currentYear hi cs = Some (totalCost cs / of_int y))
   \<and> (yearsOwned currentYear hi = Some y \<and> y \<le> 0 \<longrightarrow> costPerYear currentYear hi cs = None)
   \<and> (yearsOwned currentYear hi = None \<longrightarrow> costPerYear currentYear hi cs = None)
   \<and> shown_per_year (CostDashboard currentYear (Some (c # hid)) (w\<lparr>loading := False\<rparr>))
       = costPerYear currentYear (houseInfo w) (costs w)"
proof -
  have positive: "costPerYear currentYear hi cs = Some (totalCost cs / of_int z)"
    if "yearsOwned currentYear hi = Some z" and "0 < z" for z
    using that by (simp add: costPerYear_def truthy_cases)
  have not_positive: "costPerYear currentYear hi cs = None"
    if "yearsOwned currentYear hi = Some z" and "z \<le> 0" for z
    using that by (simp add: costPerYear_def truthy_cases)
  have absent: "costPerYear currentYear hi cs = None" if "yearsOwned currentYear hi = None"
    using that by (simp add: costPerYear_def truthy_cases)
  have defined:
    "(costPerYear currentYear hi cs \<noteq> None) = (\<exists>y. yearsOwned currentYear hi = Some y \<and> 0 < y)"
  proof (cases "yearsOwned currentYear hi")
    case None
    with absent show ?thesis by simp
  next
    case (Some z)
    show ?thesis
    proof (cases "0 < z")
      case True
      with Some positive [of z] show ?thesis by simp
    next
      case False
      with Some not_positive [of z] show ?thesis by simp
    qed
  qed
  have rendered:
    "shown_per_year (CostDashboard currentYear (Some (c # hid)) (w\<lparr>loading := False\<rparr>))
       = costPerYear currentYear (houseInfo w) (costs w)"
    by (simp add: CostDashboard_def)
  from defined positive [of y] not_positive [of y] absent rendered show ?thesis by blast
qed


text \<open>Five years and 307450 give 61490 a year; zero years and minus ten years give no
  figure.\<close>

theorem costPerYear_guarded_witness:
  "costPerYear 2026 (Some sold_house) scenario_costs = Some 61490
   \<and> costPerYear 2020 (Some (house_info (hd (houses scenario)))) scenario_costs = None
   \<and> costPerYear 2026 (Some (sold_house\<lparr>year_sold := Some 2010\<rparr>)) scenario_costs = None"
proof -
  have a: "yearsOwned 2026 (Some sold_house) = Some 5"
    by (simp add: yearsOwned_def truthy_def sold_house_def)
  have b: "yearsOwned 2020 (Some (house_info (hd (houses scenario)))) = Some 0"
    by (simp add: yearsOwned_def truthy_def scenario_def)
  have c: "yearsOwned 2026 (Some (sold_house\<lparr>year_sold := Some 2010\<rparr>)) = Some (- 10)"
    by (simp add: yearsOwned_def truthy_def sold_house_def)
  show ?thesis
    using a b c
      costPerYear_guarded [of 2026 "Some sold_house" scenario_costs 5]
      costPerYear_guarded [of 2020 "Some (house_info (hd (houses scenario)))" scenario_costs 0]
      costPerYear_guarded [of 2026 "Some (sold_house\<lparr>year_sold := Some 2010\<rparr>)" scenario_costs "- 10"]
    by (simp add: scenario_costs_def)
qed


text \<open>
  C6, as the code has it. With purchase and sale year both present and not 0,
  \<open>yearsOwned\<close> is their difference; with the purchase year present and not 0 and the
  sale year absent or 0, it is the current year minus the purchase year; with the
  purchase year absent or 0, or without a house record, it is undefined.
\<close>

theorem yearsOwned_nonzero_years:
  "(year_bought h = Some b \<and> b \<noteq> 0 \<and> year_sold h = Some s \<and> s \<noteq> 0
      \<longrightarrow> yearsOwned currentYear (Some h) = Some (s - b))
   \<and> (year_bought h = Some b \<and> b \<noteq> 0 \<and> (year_sold h = None \<or> year_sold h = Some 0)
      \<longrightarrow> yearsOwned currentYear (Some h) = Some (currentYear - b))
   \<and> (year_bought h = None \<or> year_bought h = Some 0 \<longrightarrow> yearsOwned currentYear (Some h) = None)
   \<and> yearsOwned currentYear None = None"
proof (intro conjI impI)
  assume "year_bought h = Some b \<and> b \<noteq> 0 \<and> year_sold h = Some s \<and> s \<noteq> 0"
  then have "truthy (year_bought h) = Some b" and "truthy (year_sold h) = Some s"
    by (simp_all add: truthy_cases)
  then show "yearsOwned currentYear (Some h) = Some (s - b)"
    by (simp add: yearsOwned_def)
next
  assume a: "year_bought h = Some b \<and> b \<noteq> 0 \<and> (year_sold h = None \<or> year_sold h = Some 0)"
  then have "truthy (year_bought h) = Some b" by (simp add: truthy_cases)
  moreover from a have "truthy (year_sold h) = None" by (auto simp: truthy_cases)
  ultimately show "yearsOwned currentYear (Some h) = Some (currentYear - b)"
    by (simp add: yearsOwned_def)
next
  assume "year_bought h = None \<or> year_bought h = Some 0"
  then have "truthy (year_bought h) = None" by (auto simp: truthy_cases)
  then show "yearsOwned currentYear (Some h) = None"
    by (simp add: yearsOwned_def)
next
  show "yearsOwned currentYear None = None" by (simp add: yearsOwned_def)
qed


text \<open>A house bought in 2020 and sold in 2025, the unsold house of the scenario in 2026,
  and a house without a purchase year.\<close>

theorem yearsOwned_nonzero_years_witness:
  "yearsOwned 2026 (Some sold_house) = Some 5
   \<and> yearsOwned 2026 (Some (house_info (hd (houses scenario)))) = Some 6
   \<and> yearsOwned 2026 (Some (sold_house\<lparr>year_bought := None\<rparr>)) = None"
  using yearsOwned_nonzero_years [of sold_house 2020 2025 2026]
    yearsOwned_nonzero_years [of "house_info (hd (houses scenario))" 2020 0 2026]
    yearsOwned_nonzero_years [of "sold_house\<lparr>year_bought := None\<rparr>" 0 0 2026]
  by (simp add: sold_house_def scenario_def)


text \<open>
  C6 as stated fails where the sale year is recorded as 0: both years are present, and
  \<open>yearsOwned\<close> is counted to the current year, not to the sale year.
\<close>

theorem yearsOwned_year_zero_counterexample:
  "year_bought year_zero = Some 2000 \<and> year_sold year_zero = Some 0
   \<and> yearsOwned 2026 (Some year_zero) = Some 26
   \<and> yearsOwned 2026 (Some year_zero) \<noteq> Some (0 - 2000)"
  by (simp add: year_zero_def yearsOwned_def truthy_def)


subsection \<open>Soft delete of an appliance\<close>

lemma soft_delete_repairs:
  "appliance_repairs (soft_delete_appliance uid now aid db) =
     map (\<lambda>r. if repair_appliance_id r = aid \<and> repair_deleted_at r = None
               then r\<lparr>repair_deleted_at := Some now\<rparr> else r) (appliance_repairs db)"
  by (simp add: soft_delete_appliance_def Let_def)

lemma soft_delete_attachments:
  "appliance_attachments (soft_delete_appliance uid now aid db) =
     map (\<lambda>t. if attachment_appliance_id t = aid \<and> attachment_deleted_at t = None
               then t\<lparr>attachment_deleted_at := Some now\<rparr> else t) (appliance_attachments db)"
  by (simp add: soft_delete_appliance_def Let_def)

lemma soft_delete_appliances_not_owner:
  assumes "\<not> owns_appliance uid aid db"
  shows "interior_appliances (soft_delete_appliance uid now aid db) = interior_appliances db"
proof -
  have "\<And>a. a \<in> set (interior_appliances db) \<Longrightarrow>
          (if appliance_id a = aid \<and> appliance_deleted_at a = None
               \<and> list_ex (\<lambda>h. house_id h = appliance_house_id a \<and> Some (user_id h) = uid) (houses db)
           then a\<lparr>appliance_deleted_at := Some now\<rparr> else a) = a"
    using assms by (auto simp: owns_appliance_def list_ex_iff)
  then have "map (\<lambda>a. if appliance_id a = aid \<and> appliance_deleted_at a = None
               \<and> list_ex (\<lambda>h. house_id h = appliance_house_id a \<and> Some (user_id h) = uid) (houses db)
           then a\<lparr>appliance_deleted_at := Some now\<rparr> else a) (interior_appliances db)
         = interior_appliances db"
    by (simp add: map_idI)
  then show ?thesis by (simp add: soft_delete_appliance_def Let_def)
qed

lemma soft_delete_repairs_marked:
  "\<forall>r \<in> set (appliance_repairs (soft_delete_appliance uid now aid db)).
       repair_appliance_id r = aid \<longrightarrow> repair_deleted_at r \<noteq> None"
proof
  fix r
  assume "r \<in> set (appliance_repairs (soft_delete_appliance uid now aid db))"
  then obtain r0 where "r = (if repair_appliance_id r0 = aid \<and> repair_deleted_at r0 = None
               then r0\<lparr>repair_deleted_at := Some now\<rparr> else r0)"
    unfolding soft_delete_repairs set_map by blast
  then show "repair_appliance_id r = aid \<longrightarrow> repair_deleted_at r \<noteq> None"
    by (cases "repair_appliance_id r0 = aid \<and> repair_deleted_at r0 = None") auto
qed

lemma soft_delete_attachments_marked:
  "\<forall>t \<in> set (appliance_attachments (soft_delete_appliance uid now aid db)).
       attachment_appliance_id t = aid \<longrightarrow> attachment_deleted_at t \<noteq> None"
proof
  fix t
  assume "t \<in> set (appliance_attachments (soft_delete_appliance uid now aid db))"
  then obtain t0 where "t = (if attachment_appliance_id t0 = aid \<and> attachment_deleted_at t0 = None
               then t0\<lparr>attachment_deleted_at := Some now\<rparr> else t0)"
    unfolding soft_delete_attachments set_map by blast
  then show "attachment_appliance_id t = aid \<longrightarrow> attachment_deleted_at t \<noteq> None"
    by (cases "attachment_appliance_id t0 = aid \<and> attachment_deleted_at t0 = None") auto
qed

text \<open>
  C9. For every database, caller, time and appliance identifier, after
  \<open>soft_delete_appliance\<close> every repair and every attachment that references the
  appliance is deleted: those that were not deleted are marked with the time of the
  call, whoever calls. The ownership check guards the appliance row only: for a caller
  who does not own the appliance's house the appliance table is unchanged.
\<close>

theorem soft_delete_appliance_cascade:
  "(\<forall>r \<in> set (appliance_repairs (soft_delete_appliance uid now aid db)).
       repair_appliance_id r = aid \<longrightarrow> repair_deleted_at r \<noteq> None)
   \<and> (\<forall>t \<in> set (appliance_attachments (soft_delete_appliance uid now aid db)).
       attachment_appliance_id t = aid \<longrightarrow> attachment_deleted_at t \<noteq> None)
   \<and> appliance_repairs (soft_delete_appliance uid now aid db) =
       map (\<lambda>r. if repair_appliance_id r = aid \<and> repair_deleted_at r = None
                 then r\<lparr>repair_deleted_at := Some now\<rparr> else r) (appliance_repairs db)
   \<and> appliance_attachments (soft_delete_appliance uid now aid db) =
       map (\<lambda>t. if attachment_appliance_id t = aid \<and> attachment_deleted_at t = None
                 then t\<lparr>attachment_deleted_at := Some now\<rparr> else t) (appliance_attachments db)
   \<and> (\<not> owns_appliance uid aid db \<longrightarrow>
        interior_appliances (soft_delete_appliance uid now aid db) = interior_appliances db)"
  using soft_delete_repairs_marked [of uid now aid db]
    soft_delete_attachments_marked [of uid now aid db]
    soft_delete_repairs [of uid now aid db] soft_delete_attachments [of uid now aid db]
    soft_delete_appliances_not_owner [of uid aid db now]
  by blast


text \<open>User u2 calls it on appliance a1 of user u1: the appliance stays active, its
  repair and its attachment are deleted, the repair of appliance a2 is untouched.\<close>

theorem soft_delete_appliance_cascade_witness:
  "\<not> owns_appliance (Some ''u2'') ''a1'' household
   \<and> map appliance_deleted_at (interior_appliances (soft_delete_appliance (Some ''u2'') 42 ''a1'' household))
       = [None, None]
   \<and> map repair_deleted_at (appliance_repairs (soft_delete_appliance (Some ''u2'') 42 ''a1'' household))
       = [Some 42, None]
   \<and> map attachment_deleted_at (appliance_attachments (soft_delete_appliance (Some ''u2'') 42 ''a1'' household))
       = [Some 42]"
proof -
  have no: "\<not> owns_appliance (Some ''u2'') ''a1'' household"
    by (simp add: owns_appliance_def household_def)
  have "interior_appliances (soft_delete_appliance (Some ''u2'') 42 ''a1'' household)
        = interior_appliances household"
    using no soft_delete_appliance_cascade [of "Some ''u2''" 42 "''a1''" household] by blast
  moreover have "appliance_repairs (soft_delete_appliance (Some ''u2'') 42 ''a1'' household) =
       map (\<lambda>r. if repair_appliance_id r = ''a1'' \<and> repair_deleted_at r = None
                 then r\<lparr>repair_deleted_at := Some 42\<rparr> else r) (appliance_repairs household)"
    using soft_delete_appliance_cascade [of "Some ''u2''" 42 "''a1''" household] by blast
  moreover have "appliance_attachments (soft_delete_appliance (Some ''u2'') 42 ''a1'' household) =
       map (\<lambda>t. if attachment_appliance_id t = ''a1'' \<and> attachment_deleted_at t = None
                 then t\<lparr>attachment_deleted_at := Some 42\<rparr> else t) (appliance_attachments household)"
    using soft_delete_appliance_cascade [of "Some ''u2''" 42 "''a1''" household] by blast
  ultimately show ?thesis
    using no by (simp add: household_def)
qed


text \<open>Called by the owner u1, the same call marks the appliance row as well.\<close>

lemma soft_delete_appliance_by_owner:
  "owns_appliance (Some ''u1'') ''a1'' household
   \<and> map appliance_deleted_at
         (interior_appliances (soft_delete_appliance (Some ''u1'') 42 ''a1'' household))
       = [Some 42, None]"
  by (simp add: owns_appliance_def soft_delete_appliance_def household_def Let_def)

subsection \<open>File upload\<close>

lemma upload_step_snd:
  "snd (foldl (upload_step reader props limit) st fs) = snd st @ added reader limit fs"
proof (induction fs arbitrary: st)
  case Nil
  then show ?case by (simp add: added_def List.map_filter_simps)
next
  case (Cons f fs)
  show ?case
    by (simp add: Cons.IH) (simp add: upload_step_def added_def List.map_filter_simps
        uploaded_def split: option.split)
qed

lemma upload_step_error_kept:
  "fst st \<noteq> [] \<Longrightarrow> fst (foldl (upload_step reader props limit) st fs) \<noteq> []"
proof (induction fs arbitrary: st)
  case Nil
  then show ?case by simp
next
  case (Cons f fs)
  have "fst (upload_step reader props limit st f) \<noteq> []"
    using Cons.prems by (simp add: upload_step_def split: option.split)
  then show ?case by (simp add: Cons.IH)
qed

lemma upload_step_error_set:
  "oversized limit fs \<noteq> [] \<or> unreadable reader limit fs \<noteq> []
   \<Longrightarrow> fst (foldl (upload_step reader props limit) st fs) \<noteq> []"
proof (induction fs arbitrary: st)
  case Nil
  then show ?case by (simp add: oversized_def unreadable_def)
next
  case (Cons f fs)
  show ?case
  proof (cases "f_size f > limit \<or> reader f = None")
    case True
    then have "fst (upload_step reader props limit st f) \<noteq> []"
      by (auto simp: upload_step_def split: option.split)
    then show ?thesis by (simp add: upload_step_error_kept)
  next
    case False
    then have "oversized limit fs \<noteq> [] \<or> unreadable reader limit fs \<noteq> []"
      using Cons.prems by (auto simp: oversized_def unreadable_def)
    then show ?thesis by (simp add: Cons.IH)
  qed
qed

lemma upload_step_error_clear:
  "oversized limit fs = [] \<Longrightarrow> unreadable reader limit fs = []
   \<Longrightarrow> fst (foldl (upload_step reader props limit) st fs) = fst st"
proof (induction fs arbitrary: st)
  case Nil
  then show ?case by simp
next
  case (Cons f fs)
  from Cons.prems have f: "f_size f \<le> limit" "reader f \<noteq> None"
    and rest: "oversized limit fs = []" "unreadable reader limit fs = []"
    by (auto simp: oversized_def unreadable_def split: if_splits)
  have "fst (upload_step reader props limit st f) = fst st"
    using f by (auto simp: upload_step_def split: option.split)
  then show ?case using rest by (simp add: Cons.IH)
qed

lemma handleFileSelect_too_many:
  "length (existingFiles props) + length batch > maxFiles props \<Longrightarrow>
      handleFileSelect reader props (Some batch) e
        = (''Maximum '' @ decimal (maxFiles props) @ '' files allowed'', None)"
  by (simp add: handleFileSelect_def)

lemma handleFileSelect_within:
  assumes "length (existingFiles props) + length batch \<le> maxFiles props"
  shows "handleFileSelect reader props (Some batch) e
           = (fst (foldl (upload_step reader props (maxSizeMB props * 1024 * 1024)) ([], []) batch),
              if added reader (maxSizeMB props * 1024 * 1024) batch = [] then None
              else Some (added reader (maxSizeMB props * 1024 * 1024) batch))"
  using assms by (simp add: handleFileSelect_def Let_def upload_step_snd)

lemma added_iff:
  "u \<in> set (added reader limit fs) \<longleftrightarrow>
     (\<exists>f url. f \<in> set fs \<and> f_size f \<le> limit \<and> reader f = Some url \<and> u = uploaded f url)"
  by (induction fs) (auto simp: added_def List.map_filter_simps split: option.splits)

lemma added_within_limit:
  "u \<in> set (added reader limit fs) \<Longrightarrow> file_size u \<le> limit"
  by (auto simp: added_iff uploaded_def)

text \<open>
  C10, as the code has it. A batch that would take the number of files above
  \<open>maxFiles\<close> is rejected whole: the error names the maximum and the callback is not
  called. Otherwise the callback receives, in order, the files of the batch that are
  within the size limit and that the reader has encoded, and is not called when there
  is none; a file above the limit or a file the reader fails on is skipped and leaves an
  error message; without such a file the error is empty. Without a file list the
  handler changes nothing.
\<close>

theorem handleFileSelect_batch:
  "(length (existingFiles props) + length batch > maxFiles props \<longrightarrow>
      handleFileSelect reader props (Some batch) e
        = (''Maximum '' @ decimal (maxFiles props) @ '' files allowed'', None))
   \<and> (length (existingFiles props) + length batch \<le> maxFiles props \<longrightarrow>
      snd (handleFileSelect reader props (Some batch) e)
        = (if added reader (maxSizeMB props * 1024 * 1024) batch = [] then None
           else Some (added reader (maxSizeMB props * 1024 * 1024) batch))
      \<and> (oversized (maxSizeMB props * 1024 * 1024) batch \<noteq> []
           \<longrightarrow> fst (handleFileSelect reader props (Some batch) e) \<noteq> [])
      \<and> (unreadable reader (maxSizeMB props * 1024 * 1024) batch \<noteq> []
           \<longrightarrow> fst (handleFileSelect reader props (Some batch) e) \<noteq> [])
      \<and> (oversized (maxSizeMB props * 1024 * 1024) batch = []
           \<and> unreadable reader (maxSizeMB props * 1024 * 1024) batch = []
           \<longrightarrow> fst (handleFileSelect reader props (Some batch) e) = []))
   \<and> handleFileSelect reader props None e = (e, None)"
proof (intro conjI impI)
  show "handleFileSelect reader props None e = (e, None)"
    by (simp add: handleFileSelect_def)
next
  assume "length (existingFiles props) + length batch > maxFiles props"
  then show "handleFileSelect reader props (Some batch) e
        = (''Maximum '' @ decimal (maxFiles props) @ '' files allowed'', None)"
    by (rule handleFileSelect_too_many)
next
  assume w: "length (existingFiles props) + length batch \<le> maxFiles props"
  show "snd (handleFileSelect reader props (Some batch) e)
        = (if added reader (maxSizeMB props * 1024 * 1024) batch = [] then None
           else Some (added reader (maxSizeMB props * 1024 * 1024) batch))"
    by (simp only: handleFileSelect_within [OF w] snd_conv)
next
  assume w: "length (existingFiles props) + length batch \<le> maxFiles props"
    and "oversized (maxSizeMB props * 1024 * 1024) batch \<noteq> []"
  then show "fst (handleFileSelect reader props (Some batch) e) \<noteq> []"
    by (simp only: handleFileSelect_within [OF w] fst_conv) (simp add: upload_step_error_set)
next
  assume w: "length (existingFiles props) + length batch \<le> maxFiles props"
    and "unreadable reader (maxSizeMB props * 1024 * 1024) batch \<noteq> []"
  then show "fst (handleFileSelect reader props (Some batch) e) \<noteq> []"
    by (simp only: handleFileSelect_within [OF w] fst_conv) (simp add: upload_step_error_set)
next
  assume w: "length (existingFiles props) + length batch \<le> maxFiles props"
    and "oversized (maxSizeMB props * 1024 * 1024) batch = []
           \<and> unreadable reader (maxSizeMB props * 1024 * 1024) batch = []"
  then show "fst (handleFileSelect reader props (Some batch) e) = []"
    by (simp only: handleFileSelect_within [OF w] fst_conv) (simp add: upload_step_error_clear)
qed

text \<open>With the defaults: eleven files are rejected; of a picture and a six-megabyte scan
  the picture is added and the scan is reported.\<close>

theorem handleFileSelect_batch_witness:
  "handleFileSelect reader_ok (default_props []) (Some (replicate 11 photo)) []
     = (''Maximum 10 files allowed'', None)
   \<and> handleFileSelect reader_ok (default_props []) (Some [photo, scan]) []
     = (''File scan.pdf exceeds 5MB limit'', Some [uploaded photo ''data:image/png;base64,AAAA''])"
proof -
  have many: "length (existingFiles (default_props [])) + length (replicate 11 photo)
                > maxFiles (default_props [])"
    by (simp add: default_props_def)
  have few: "length (existingFiles (default_props [])) + length [photo, scan]
                \<le> maxFiles (default_props [])"
    by (simp add: default_props_def)
  have ten: "decimal 10 = ''10''" by (simp add: decimal.simps)
  have five: "decimal 5 = ''5''" by (simp add: decimal.simps)
  have a: "handleFileSelect reader_ok (default_props []) (Some (replicate 11 photo)) []
     = (''Maximum 10 files allowed'', None)"
    using many handleFileSelect_batch [of "default_props []" "replicate 11 photo" reader_ok "[]"]
    by (simp add: default_props_def ten)
  have b: "snd (handleFileSelect reader_ok (default_props []) (Some [photo, scan]) [])
     = Some [uploaded photo ''data:image/png;base64,AAAA'']"
    using few handleFileSelect_batch [of "default_props []" "[photo, scan]" reader_ok "[]"]
    by (simp add: default_props_def added_def List.map_filter_simps photo_def scan_def
        reader_ok_def)
  have c: "fst (handleFileSelect reader_ok (default_props []) (Some [photo, scan]) [])
     = ''File scan.pdf exceeds 5MB limit''"
    by (simp add: handleFileSelect_def default_props_def upload_step_def photo_def scan_def
        reader_ok_def five)
  from a b c show ?thesis by (simp add: prod_eq_iff)
qed

text \<open>
  C10 as stated fails where the reader fails: the picture is within the limit, and it
  is not added.
\<close>

theorem handleFileSelect_unread_counterexample:
  "f_size photo \<le> maxSizeMB (default_props []) * 1024 * 1024
   \<and> length (existingFiles (default_props [])) + length [photo] \<le> maxFiles (default_props [])
   \<and> handleFileSelect reader_broken (default_props []) (Some [photo]) []
       = (''Failed to upload photo.png'', None)"
  by (simp add: handleFileSelect_def default_props_def upload_step_def photo_def
      reader_broken_def)

end
